theory Spec2Isabelle
  imports Complex_Main "HOL-Library.AList"
begin

section \<open>Errors\<close>

text \<open>
  The exceptions the modelled code can raise. A function that may raise returns
  \<open>error + 'a\<close>, with \<open>Inl\<close> for the exception.
\<close>

datatype error =
    KeyError
  | AssertionError
  | ZeroDivisionError
  | RuntimeError
  | AttributeError
  | ValueError
  | FileNotFoundError

section \<open>The host module graph\<close>

text \<open>
  A \<open>torch.nn.Module\<close> as the scanner sees it: its runtime type name
  (\<open>__class__.__name__\<close>), and its child table \<open>_modules\<close>, an ordered dictionary
  from child name to child module. The host graph is a tree (spec, 4.1), so the
  duplicate elimination of \<open>named_modules\<close> never drops anything and is left out.
  The payload \<open>'a\<close> stands for everything else an object carries (its identity, its
  parameters); the scanner never looks at it.
\<close>

datatype 'a module =
  Module (class_name: string) (payload: 'a) (children: "(string \<times> 'a module) list")

text \<open>
  \<open>Module.named_modules(prefix)\<close>: the module itself under \<open>prefix\<close>, then the
  named modules of every child under \<open>prefix + ("." if prefix else "") + name\<close>,
  in the order of the child table.
\<close>

fun named_modules :: "string \<Rightarrow> 'a module \<Rightarrow> (string \<times> 'a module) list" where
  "named_modules prefix (Module c p ch) =
     (prefix, Module c p ch) #
     concat (map (\<lambda>(name, m).
                    named_modules (prefix @ (if prefix = [] then [] else ''.'') @ name) m) ch)"

text \<open>\<open>m._modules[name]\<close>: a missing key raises KeyError.\<close>

definition get_child :: "'a module \<Rightarrow> string \<Rightarrow> error + 'a module" where
  "get_child m name =
     (case map_of (children m) name of None \<Rightarrow> Inl KeyError | Some c \<Rightarrow> Inr c)"

section \<open>Strings\<close>

text \<open>\<open>s.split(".")\<close>: the empty string gives one empty token.\<close>

fun split_on :: "char \<Rightarrow> string \<Rightarrow> string list" where
  "split_on d [] = [[]]"
| "split_on d (c # cs) =
     (if c = d then [] # split_on d cs
      else (case split_on d cs of
              [] \<Rightarrow> [[c]]
            | s # ss \<Rightarrow> (c # s) # ss))"

text \<open>\<open>s.replace(".", "/")\<close>.\<close>

definition replace_char :: "char \<Rightarrow> char \<Rightarrow> string \<Rightarrow> string" where
  "replace_char a b s = map (\<lambda>c. if c = a then b else c) s"

section \<open>The graph scanner\<close>

text \<open>The names of the enumeration \<open>TargetableModules\<close> (\<open>__members__\<close>).\<close>

definition TargetableModules_members :: "string set" where
  "TargetableModules_members = {''Linear'', ''Conv1d''}"

text \<open>One value of the result dictionary: \<open>{"module": ..., "parent": ...}\<close>.\<close>

record 'a target =
  target_module :: "'a module"
  target_parent :: "'a module"

type_synonym 'a module_map = "(string \<times> 'a target) list"

text \<open>\<open>f"{ancestor_name}.{decendant_name}".replace(".", "/")\<close>\<close>

definition qualified_id :: "string \<Rightarrow> string \<Rightarrow> string" where
  "qualified_id ancestor_name decendant_name =
     replace_char (CHR ''.'') (CHR ''/'') (ancestor_name @ ''.'' @ decendant_name)"

text \<open>
  The innermost loop, \<open>for name in decendant_name.split(".")[:-1]\<close>, which rebinds the
  variable \<open>ancestor_module\<close> to its child \<open>name\<close> at every step.
\<close>

fun walk_modules :: "'a module \<Rightarrow> string list \<Rightarrow> error + 'a module" where
  "walk_modules ancestor_module [] = Inr ancestor_module"
| "walk_modules ancestor_module (name # names) =
     (case get_child ancestor_module name of
        Inl e \<Rightarrow> Inl e
      | Inr m \<Rightarrow> walk_modules m names)"

text \<open>
  The loop over \<open>ancestor_module.named_modules()\<close>. The generator is created once,
  from the ancestor block; the loop body then works on the variable
  \<open>ancestor_module\<close>, which the walk above has rebound, so the variable is part of
  the loop state together with the dictionary. An entry is stored by plain
  assignment \<open>module_map[id] = ...\<close>, which is \<open>AList.update\<close> on the ordered
  dictionary.
\<close>

fun scan_decendants ::
  "string \<Rightarrow> (string \<times> 'a module) list \<Rightarrow> 'a module \<Rightarrow> 'a module_map \<Rightarrow> error + 'a module_map"
where
  "scan_decendants ancestor_name [] ancestor_module module_map = Inr module_map"
| "scan_decendants ancestor_name ((decendant_name, decendant_module) # rest)
       ancestor_module module_map =
     (if class_name decendant_module \<in> TargetableModules_members then
        (case walk_modules ancestor_module (butlast (split_on (CHR ''.'') decendant_name)) of
           Inl e \<Rightarrow> Inl e
         | Inr ancestor_module' \<Rightarrow>
             scan_decendants ancestor_name rest ancestor_module'
               (AList.update (qualified_id ancestor_name decendant_name)
                  \<lparr>target_module = decendant_module, target_parent = ancestor_module'\<rparr>
                  module_map))
      else scan_decendants ancestor_name rest ancestor_module module_map)"

text \<open>The condition under which the outer loop enters an ancestor block.\<close>

definition block_selected ::
  "string set \<Rightarrow> string set option \<Rightarrow> string set option \<Rightarrow> string \<Rightarrow> 'a module \<Rightarrow> bool"
where
  "block_selected target_blocks whitelist blacklist ancestor_name ancestor_module =
     (let ancestor_set = set (split_on (CHR ''.'') ancestor_name) in
        class_name ancestor_module \<in> target_blocks
        \<and> (case whitelist of None \<Rightarrow> True | Some w \<Rightarrow> \<not> (ancestor_set \<inter> w = {}))
        \<and> (case blacklist of None \<Rightarrow> True | Some b \<Rightarrow> ancestor_set \<inter> b = {}))"

text \<open>The loop over \<open>model.named_modules()\<close>.\<close>

fun scan_ancestors ::
  "string set \<Rightarrow> string set option \<Rightarrow> string set option \<Rightarrow>
   (string \<times> 'a module) list \<Rightarrow> 'a module_map \<Rightarrow> error + 'a module_map"
where
  "scan_ancestors target_blocks whitelist blacklist [] module_map = Inr module_map"
| "scan_ancestors target_blocks whitelist blacklist
       ((ancestor_name, ancestor_module) # rest) module_map =
     (if block_selected target_blocks whitelist blacklist ancestor_name ancestor_module then
        (case scan_decendants ancestor_name (named_modules [] ancestor_module)
                ancestor_module module_map of
           Inl e \<Rightarrow> Inl e
         | Inr module_map' \<Rightarrow>
             scan_ancestors target_blocks whitelist blacklist rest module_map')
      else scan_ancestors target_blocks whitelist blacklist rest module_map)"

text \<open>
  \<open>scan_model(model, target_blocks, whitelist=None, blacklist=None)\<close>. The three
  arguments are turned into sets first; the message printed before the return is
  not modelled.
\<close>

definition scan_model ::
  "'a module \<Rightarrow> string list \<Rightarrow> string list option \<Rightarrow> string list option \<Rightarrow>
   error + 'a module_map"
where
  "scan_model model target_blocks whitelist blacklist =
     scan_ancestors (set target_blocks) (map_option set whitelist) (map_option set blacklist)
       (named_modules [] model) []"

subsection \<open>The assignments the scanner makes\<close>

text \<open>
  The same two loops, returning the sequence of assignments \<open>module_map[id] = ...\<close>
  they execute, in order, instead of the dictionary the assignments build. It serves
  to say which assignment an entry of the result comes from.
\<close>

fun decendant_assignments ::
  "string \<Rightarrow> (string \<times> 'a module) list \<Rightarrow> 'a module \<Rightarrow> error + 'a module_map"
where
  "decendant_assignments ancestor_name [] ancestor_module = Inr []"
| "decendant_assignments ancestor_name ((decendant_name, decendant_module) # rest)
       ancestor_module =
     (if class_name decendant_module \<in> TargetableModules_members then
        (case walk_modules ancestor_module (butlast (split_on (CHR ''.'') decendant_name)) of
           Inl e \<Rightarrow> Inl e
         | Inr ancestor_module' \<Rightarrow>
             (case decendant_assignments ancestor_name rest ancestor_module' of
                Inl e \<Rightarrow> Inl e
              | Inr assignments \<Rightarrow>
                  Inr ((qualified_id ancestor_name decendant_name,
                        \<lparr>target_module = decendant_module, target_parent = ancestor_module'\<rparr>)
                       # assignments)))
      else decendant_assignments ancestor_name rest ancestor_module)"

fun ancestor_assignments ::
  "string set \<Rightarrow> string set option \<Rightarrow> string set option \<Rightarrow>
   (string \<times> 'a module) list \<Rightarrow> error + 'a module_map"
where
  "ancestor_assignments target_blocks whitelist blacklist [] = Inr []"
| "ancestor_assignments target_blocks whitelist blacklist
       ((ancestor_name, ancestor_module) # rest) =
     (if block_selected target_blocks whitelist blacklist ancestor_name ancestor_module then
        (case decendant_assignments ancestor_name (named_modules [] ancestor_module)
                ancestor_module of
           Inl e \<Rightarrow> Inl e
         | Inr first \<Rightarrow>
             (case ancestor_assignments target_blocks whitelist blacklist rest of
                Inl e \<Rightarrow> Inl e
              | Inr later \<Rightarrow> Inr (first @ later)))
      else ancestor_assignments target_blocks whitelist blacklist rest)"

definition scan_assignments ::
  "'a module \<Rightarrow> string list \<Rightarrow> string list option \<Rightarrow> string list option \<Rightarrow>
   error + 'a module_map"
where
  "scan_assignments model target_blocks whitelist blacklist =
     ancestor_assignments (set target_blocks) (map_option set whitelist)
       (map_option set blacklist) (named_modules [] model)"

text \<open>Executing a sequence of assignments on a dictionary.\<close>

definition assign_all :: "('k \<times> 'v) list \<Rightarrow> ('k \<times> 'v) list \<Rightarrow> ('k \<times> 'v) list" where
  "assign_all assignments d = fold (\<lambda>(k, v). AList.update k v) assignments d"

subsection \<open>Example graphs\<close>

text \<open>The payload of the examples is a number that tells the objects apart.\<close>

definition linear_leaf :: "nat \<Rightarrow> nat module" where
  "linear_leaf i = Module ''Linear'' i []"

text \<open>
  An attention block whose first child is a container holding a dense layer, and
  whose second child is a dense layer.
\<close>

definition to_out_block :: "nat module" where
  "to_out_block =
     Module ''Sequential'' 2 [(''0'', linear_leaf 3), (''1'', Module ''Dropout'' 4 [])]"

definition attention_block :: "nat module" where
  "attention_block =
     Module ''Attention'' 1 [(''to_out'', to_out_block), (''to_k'', linear_leaf 5)]"

definition attention_model :: "nat module" where
  "attention_model = Module ''Model'' 0 [(''blk'', attention_block)]"

text \<open>An attention block with two nested containers.\<close>

definition two_containers_model :: "nat module" where
  "two_containers_model =
     Module ''Model'' 0
       [(''blk'', Module ''Attention'' 1
           [(''to_out'', Module ''Sequential'' 2 [(''0'', linear_leaf 3)]),
            (''ff'', Module ''FeedForward'' 4 [(''net'', linear_leaf 5)])])]"

text \<open>
  A transformer block that contains an attention block; both types can be target
  blocks.
\<close>

definition inner_attention :: "nat module" where
  "inner_attention = Module ''Attention'' 2 [(''c'', linear_leaf 3)]"

definition nested_blocks_model :: "nat module" where
  "nested_blocks_model =
     Module ''Model'' 0 [(''a'', Module ''TransformerBlock'' 1 [(''b'', inner_attention)])]"

text \<open>
  A block with a child named \<open>b/c\<close> (a legal child name: only the dot and the empty
  name are refused) beside a child \<open>b\<close> that has a child \<open>c\<close>.
\<close>

definition slash_model :: "nat module" where
  "slash_model =
     Module ''Model'' 0
       [(''a'', Module ''Attention'' 1
           [(''b/c'', linear_leaf 2),
            (''b'', Module ''Block'' 3 [(''c'', linear_leaf 4)])])]"


section \<open>Tensors\<close>

text \<open>
  A tensor is its shape and its elements in row-major order. The arithmetic is exact
  (the elements are real numbers): rounding, infinities and the element type play
  no part in a computation. The element type is a tag kept with a stored parameter.
\<close>

record tensor =
  shape :: "nat list"
  data :: "real list"

datatype dtype = Float16 | BFloat16 | Float32 | Float64

definition numel :: "nat list \<Rightarrow> nat" where
  "numel s = prod_list s"

text \<open>Reading an element; beyond the end of an ill-formed tensor it reads zero.\<close>

definition get0 :: "real list \<Rightarrow> nat \<Rightarrow> real" where
  "get0 xs i = (if i < length xs then xs ! i else 0)"

text \<open>\<open>t * c\<close> for a number \<open>c\<close>.\<close>

definition tensor_scale :: "tensor \<Rightarrow> real \<Rightarrow> tensor" where
  "tensor_scale t c = t\<lparr>data := map (\<lambda>v. v * c) (data t)\<rparr>"

subsection \<open>Broadcasting\<close>

text \<open>
  Shapes are aligned at the last dimension and the shorter one is filled with
  leading ones; two sizes are compatible when they are equal or one of them is 1.
\<close>

definition pad_shape :: "nat \<Rightarrow> nat list \<Rightarrow> nat list" where
  "pad_shape n s = replicate (n - length s) 1 @ s"

fun broadcast_dims :: "nat list \<Rightarrow> nat list \<Rightarrow> nat list option" where
  "broadcast_dims [] [] = Some []"
| "broadcast_dims (a # as) (b # bs) =
     (if a = b \<or> b = 1 then map_option ((#) a) (broadcast_dims as bs)
      else if a = 1 then map_option ((#) b) (broadcast_dims as bs)
      else None)"
| "broadcast_dims _ _ = None"

definition broadcast_shapes :: "nat list \<Rightarrow> nat list \<Rightarrow> nat list option" where
  "broadcast_shapes s t =
     (let n = max (length s) (length t) in broadcast_dims (pad_shape n s) (pad_shape n t))"

text \<open>
  The elements of a tensor of shape \<open>src\<close> expanded to the shape \<open>dst\<close> of the same
  length: along a dimension of size 1 the one block is repeated.
\<close>

fun expand_data :: "nat list \<Rightarrow> nat list \<Rightarrow> real list \<Rightarrow> real list" where
  "expand_data (a # as) (b # bs) xs =
     (let blocks = map (\<lambda>i. take (numel as) (drop (i * numel as) xs)) [0..<a]
      in concat (map (expand_data as bs)
                   (if a = b then blocks else concat (replicate b blocks))))"
| "expand_data _ _ xs = xs"

definition expand_to :: "tensor \<Rightarrow> nat list \<Rightarrow> real list" where
  "expand_to t s =
     (if shape t = s then data t
      else expand_data (pad_shape (length s) (shape t)) s (data t))"

text \<open>An elementwise binary operation, \<open>x + y\<close> or \<open>x - y\<close>, with broadcasting.\<close>

definition broadcast_op ::
  "(real \<Rightarrow> real \<Rightarrow> real) \<Rightarrow> tensor \<Rightarrow> tensor \<Rightarrow> error + tensor"
where
  "broadcast_op f x y =
     (case broadcast_shapes (shape x) (shape y) of
        None \<Rightarrow> Inl RuntimeError
      | Some s \<Rightarrow> Inr \<lparr>shape = s, data = map2 f (expand_to x s) (expand_to y s)\<rparr>)"

definition tensor_add :: "tensor \<Rightarrow> tensor \<Rightarrow> error + tensor" where
  "tensor_add = broadcast_op (+)"

definition tensor_sub :: "tensor \<Rightarrow> tensor \<Rightarrow> error + tensor" where
  "tensor_sub = broadcast_op (-)"

subsection \<open>Parameters and layers\<close>

text \<open>A parameter: its values, its element type, and whether it is trained.\<close>

record parameter =
  pvalue :: tensor
  pdtype :: dtype
  requires_grad :: bool

text \<open>
  The two kinds of layer the adapters wrap and are made of, \<open>torch.nn.Linear\<close> and
  \<open>torch.nn.Conv1d\<close>, with the attributes the code reads. The padding of a
  convolution is a number of zeros on each side.
\<close>

record conv_attrs =
  in_channels :: nat
  out_channels :: nat
  kernel_size :: nat
  stride :: nat
  padding :: nat
  dilation :: nat
  groups :: nat

datatype layer_attrs =
    LinearAttrs nat nat
  | Conv1dAttrs conv_attrs

record layer =
  attrs :: layer_attrs
  weight :: parameter
  bias :: "parameter option"

text \<open>
  \<open>F.linear(x, w, b)\<close>: the weight has shape \<open>[out, in]\<close>, the last dimension of the
  input must be \<open>in\<close>, and every row \<open>r\<close> of the input gives the row
  \<open>w r + b\<close> of the output.
\<close>

definition F_linear :: "tensor \<Rightarrow> tensor \<Rightarrow> tensor option \<Rightarrow> error + tensor" where
  "F_linear x w b =
     (case shape w of
        [out_f, in_f] \<Rightarrow>
          (if shape x = [] \<or> last (shape x) \<noteq> in_f then Inl RuntimeError
           else if (case b of None \<Rightarrow> False | Some bt \<Rightarrow> shape bt \<noteq> [out_f])
           then Inl RuntimeError
           else
             Inr \<lparr>shape = butlast (shape x) @ [out_f],
                  data =
                    concat (map (\<lambda>r. map (\<lambda>oc.
                        (\<Sum>i \<leftarrow> [0..<in_f]. get0 (data w) (oc * in_f + i) * get0 (data x) (r * in_f + i))
                        + (case b of None \<Rightarrow> 0 | Some bt \<Rightarrow> get0 (data bt) oc))
                      [0..<out_f]) [0..<numel (butlast (shape x))])\<rparr>)
      | _ \<Rightarrow> Inl RuntimeError)"

text \<open>
  \<open>F.conv1d(x, w, b, stride, padding, dilation, groups)\<close>: the weight has shape
  \<open>[out, in / groups, k]\<close>, the input \<open>[in, l]\<close> or \<open>[n, in, l]\<close>. The padded input
  must be at least as long as the dilated kernel, and the output has length
  \<open>(l + 2 padding - dilation (k - 1) - 1) div stride + 1\<close>.
\<close>

definition conv_out_length :: "nat \<Rightarrow> nat \<Rightarrow> nat \<Rightarrow> nat \<Rightarrow> nat \<Rightarrow> nat" where
  "conv_out_length l k strd pad dil = (l + 2 * pad - (dil * (k - 1) + 1)) div strd + 1"

definition F_conv1d ::
  "tensor \<Rightarrow> tensor \<Rightarrow> tensor option \<Rightarrow> nat \<Rightarrow> nat \<Rightarrow> nat \<Rightarrow> nat \<Rightarrow> error + tensor"
where
  "F_conv1d x w b strd pad dil grp =
     (case shape w of
        [out_c, in_g, k] \<Rightarrow>
          (if length (shape x) \<noteq> 2 \<and> length (shape x) \<noteq> 3 then Inl RuntimeError
           else
             let l = last (shape x); in_c = last (butlast (shape x));
                 batch = butlast (butlast (shape x))
             in
               if grp = 0 \<or> strd = 0 \<or> dil = 0 \<or> k = 0 then Inl RuntimeError
               else if in_c \<noteq> in_g * grp \<or> out_c mod grp \<noteq> 0 then Inl RuntimeError
               else if (case b of None \<Rightarrow> False | Some bt \<Rightarrow> shape bt \<noteq> [out_c])
               then Inl RuntimeError
               else if l + 2 * pad < dil * (k - 1) + 1 then Inl RuntimeError
               else
                 let l_out = conv_out_length l k strd pad dil in
                   Inr \<lparr>shape = batch @ [out_c, l_out],
                        data =
                          concat (map (\<lambda>n. concat (map (\<lambda>oc. map (\<lambda>t.
                              (\<Sum>i \<leftarrow> [0..<in_g]. \<Sum>j \<leftarrow> [0..<k].
                                 get0 (data w) ((oc * in_g + i) * k + j) *
                                 (let pos = t * strd + j * dil;
                                      c = (oc div (out_c div grp)) * in_g + i
                                  in if pos < pad \<or> pad + l \<le> pos then 0
                                     else get0 (data x) ((n * in_c + c) * l + (pos - pad))))
                              + (case b of None \<Rightarrow> 0 | Some bt \<Rightarrow> get0 (data bt) oc))
                            [0..<l_out]) [0..<out_c])) [0..<numel batch])\<rparr>)
      | _ \<Rightarrow> Inl RuntimeError)"

text \<open>The \<open>forward\<close> of a layer.\<close>

definition layer_forward :: "layer \<Rightarrow> tensor \<Rightarrow> error + tensor" where
  "layer_forward l x =
     (case attrs l of
        LinearAttrs in_f out_f \<Rightarrow>
          F_linear x (pvalue (weight l)) (map_option pvalue (bias l))
      | Conv1dAttrs c \<Rightarrow>
          F_conv1d x (pvalue (weight l)) (map_option pvalue (bias l))
            (stride c) (padding c) (dilation c) (groups c))"

text \<open>
  The constructors as the adapters call them, with \<open>bias=False\<close>. A new parameter is
  trainable and has the default element type. Its initial values are random; the
  source of the random numbers is the argument \<open>rnd\<close>.
\<close>

definition new_parameter :: "nat list \<Rightarrow> (nat \<Rightarrow> real) \<Rightarrow> parameter" where
  "new_parameter s rnd =
     \<lparr>pvalue = \<lparr>shape = s, data = map rnd [0..<numel s]\<rparr>,
      pdtype = Float32, requires_grad = True\<rparr>"

definition nn_Linear :: "nat \<Rightarrow> nat \<Rightarrow> (nat \<Rightarrow> real) \<Rightarrow> layer" where
  "nn_Linear in_f out_f rnd =
     \<lparr>attrs = LinearAttrs in_f out_f, weight = new_parameter [out_f, in_f] rnd, bias = None\<rparr>"

definition nn_Conv1d :: "nat \<Rightarrow> nat \<Rightarrow> nat \<Rightarrow> nat \<Rightarrow> nat \<Rightarrow> (nat \<Rightarrow> real) \<Rightarrow> layer" where
  "nn_Conv1d in_c out_c k strd pad rnd =
     \<lparr>attrs = Conv1dAttrs \<lparr>in_channels = in_c, out_channels = out_c, kernel_size = k,
                           stride = strd, padding = pad, dilation = 1, groups = 1\<rparr>,
      weight = new_parameter [out_c, in_c, k] rnd, bias = None\<rparr>"

text \<open>\<open>torch.nn.init.kaiming_uniform_\<close> and \<open>torch.nn.init.zeros_\<close> on a weight.\<close>

definition kaiming_uniform :: "(nat \<Rightarrow> real) \<Rightarrow> parameter \<Rightarrow> parameter" where
  "kaiming_uniform rnd p =
     p\<lparr>pvalue := (pvalue p)\<lparr>data := map rnd [0..<numel (shape (pvalue p))]\<rparr>\<rparr>"

definition zeros :: "parameter \<Rightarrow> parameter" where
  "zeros p = p\<lparr>pvalue := (pvalue p)\<lparr>data := replicate (numel (shape (pvalue p))) 0\<rparr>\<rparr>"

text \<open>
  \<open>F.dropout(t, p)\<close> in training mode: an element is kept and divided by \<open>1 - p\<close>, or
  set to zero; \<open>keep\<close> says which, and stands for the random draw.
\<close>

definition F_dropout :: "tensor \<Rightarrow> real \<Rightarrow> (nat \<Rightarrow> bool) \<Rightarrow> error + tensor" where
  "F_dropout t p keep =
     (if p < 0 \<or> 1 < p then Inl ValueError
      else Inr (t\<lparr>data := map (\<lambda>i. if keep i \<and> p \<noteq> 1 then get0 (data t) i / (1 - p) else 0)
                             [0..<length (data t)]\<rparr>))"

section \<open>The objects of the host graph\<close>

text \<open>
  What a node of the host graph carries. A module of the host has an identity, its
  content, and its instance attribute \<open>forward\<close>, which is unset until call
  interception binds it to the \<open>forward\<close> of an adapter (named by its
  \<open>lora_name\<close>). The content is a layer, or anything else: then only its own
  parameters and its forward computation, a function of the input, are known. A node
  can also be an adapter that structural injection has registered as a child; the
  adapter itself is kept in the network, under its \<open>lora_name\<close>.
\<close>

datatype content =
    Opaque "(string \<times> parameter) list" "tensor \<Rightarrow> error + tensor"
  | Layer layer

datatype node =
    HostObject nat content "string option"
  | AdapterObject string

type_synonym host = "node module"

datatype object_id = HostId nat | AdapterId string

fun node_id :: "node \<Rightarrow> object_id" where
  "node_id (HostObject i c f) = HostId i"
| "node_id (AdapterObject n) = AdapterId n"

text \<open>The forward computation of a host module's class.\<close>

fun class_forward :: "content \<Rightarrow> tensor \<Rightarrow> error + tensor" where
  "class_forward (Opaque ps f) = f"
| "class_forward (Layer l) = layer_forward l"

text \<open>
  \<open>original_module.forward\<close>, the bound method an adapter captures when it is built.
  Adapters are built on a host whose modules still have their own \<open>forward\<close>.
\<close>

fun bound_forward :: "host \<Rightarrow> tensor \<Rightarrow> error + tensor" where
  "bound_forward (Module c (HostObject i k f) ch) = class_forward k"
| "bound_forward (Module c (AdapterObject n) ch) = (\<lambda>x. Inl AttributeError)"

section \<open>The adapter module\<close>

text \<open>An argument that has a default value may be left out.\<close>

datatype 'a arg = Omitted | Given 'a

fun arg_or :: "'a \<Rightarrow> 'a arg \<Rightarrow> 'a" where
  "arg_or d Omitted = d"
| "arg_or d (Given v) = v"

text \<open>
  The attributes \<open>LoRAWModule.__init__\<close> sets, and \<open>training\<close>, which every module has
  and which is true after construction. \<open>original_module\<close> is \<open>None\<close> once the
  attribute has been deleted.
\<close>

record LoRAWModule =
  lora_name :: string
  lora_dim :: nat
  multiplier :: real
  original_module :: "host option"
  original_forward :: "tensor \<Rightarrow> error + tensor"
  dropout :: "real option"
  module_dropout :: "real option"
  scale :: real
  training :: bool

text \<open>
  \<open>LoRAWModule.__init__(lora_name, original_module, multiplier=1.0, lora_dim=16,
  alpha=1.0, dropout=None, module_dropout=None)\<close>. The rank is a natural number;
  \<open>alpha\<close> is a number or \<open>None\<close> (a tensor \<open>alpha\<close> is turned into its number first).
  The division \<open>alpha / self.lora_dim\<close> raises for the rank 0.
\<close>

definition LoRAWModule_init ::
  "string \<Rightarrow> host \<Rightarrow> real arg \<Rightarrow> nat arg \<Rightarrow> real option arg \<Rightarrow> real option arg \<Rightarrow>
   real option arg \<Rightarrow> error + LoRAWModule"
where
  "LoRAWModule_init name original multiplier_arg lora_dim_arg alpha_arg dropout_arg
       module_dropout_arg =
     (let rank = arg_or 16 lora_dim_arg;
          alpha = (case arg_or (Some 1) alpha_arg of
                     None \<Rightarrow> real rank
                   | Some a \<Rightarrow> if a = 0 then real rank else a)
      in if rank = 0 then Inl ZeroDivisionError
         else Inr \<lparr>lora_name = name, lora_dim = rank,
                   multiplier = arg_or 1 multiplier_arg,
                   original_module = Some original,
                   original_forward = bound_forward original,
                   dropout = arg_or None dropout_arg,
                   module_dropout = arg_or None module_dropout_arg,
                   scale = alpha / real rank,
                   training = True\<rparr>)"

text \<open>
  \<open>LoRAWLinear\<close> and \<open>LoRAWConv1d\<close> add the two projections to the attributes of
  \<open>LoRAWModule\<close>.
\<close>

record LoRAWAdapter = LoRAWModule +
  lora_down :: layer
  lora_up :: layer

text \<open>
  \<open>LoRAWLinear.__init__\<close>. Reading \<open>in_features\<close> of a module that is not a dense
  layer raises AttributeError.
\<close>

definition LoRAWLinear_init ::
  "string \<Rightarrow> host \<Rightarrow> real arg \<Rightarrow> nat arg \<Rightarrow> real option arg \<Rightarrow> real option arg \<Rightarrow>
   real option arg \<Rightarrow> (nat \<Rightarrow> real) \<Rightarrow> error + LoRAWAdapter"
where
  "LoRAWLinear_init name original multiplier_arg lora_dim_arg alpha_arg dropout_arg
       module_dropout_arg rnd =
     (case LoRAWModule_init name original multiplier_arg lora_dim_arg alpha_arg dropout_arg
             module_dropout_arg of
        Inl e \<Rightarrow> Inl e
      | Inr self \<Rightarrow>
          (case payload original of
             HostObject i (Layer l) f \<Rightarrow>
               (case attrs l of
                  LinearAttrs in_dim out_dim \<Rightarrow>
                    (let down = nn_Linear in_dim (lora_dim self) rnd;
                         up = nn_Linear (lora_dim self) out_dim rnd
                     in Inr (LoRAWModule.extend self
                          \<lparr>lora_down = down\<lparr>weight := kaiming_uniform rnd (weight down)\<rparr>,
                           lora_up = up\<lparr>weight := zeros (weight up)\<rparr>\<rparr>))
                | Conv1dAttrs c \<Rightarrow> Inl AttributeError)
           | _ \<Rightarrow> Inl AttributeError))"

text \<open>
  \<open>LoRAWConv1d.__init__\<close>: the down projection takes the kernel size, the stride and
  the padding of the original; the up projection has kernel size 1 and stride 1.
\<close>

definition LoRAWConv1d_init ::
  "string \<Rightarrow> host \<Rightarrow> real arg \<Rightarrow> nat arg \<Rightarrow> real option arg \<Rightarrow> real option arg \<Rightarrow>
   real option arg \<Rightarrow> (nat \<Rightarrow> real) \<Rightarrow> error + LoRAWAdapter"
where
  "LoRAWConv1d_init name original multiplier_arg lora_dim_arg alpha_arg dropout_arg
       module_dropout_arg rnd =
     (case LoRAWModule_init name original multiplier_arg lora_dim_arg alpha_arg dropout_arg
             module_dropout_arg of
        Inl e \<Rightarrow> Inl e
      | Inr self \<Rightarrow>
          (case payload original of
             HostObject i (Layer l) f \<Rightarrow>
               (case attrs l of
                  Conv1dAttrs c \<Rightarrow>
                    (let down = nn_Conv1d (in_channels c) (lora_dim self) (kernel_size c)
                                  (stride c) (padding c) rnd;
                         up = nn_Conv1d (lora_dim self) (out_channels c) 1 1 0 rnd
                     in Inr (LoRAWModule.extend self
                          \<lparr>lora_down = down\<lparr>weight := kaiming_uniform rnd (weight down)\<rparr>,
                           lora_up = up\<lparr>weight := zeros (weight up)\<rparr>\<rparr>))
                | LinearAttrs in_dim out_dim \<Rightarrow> Inl AttributeError)
           | _ \<Rightarrow> Inl AttributeError))"

text \<open>
  The random draws of one forward call: the number \<open>torch.rand(1)\<close> and, for the
  dropout of the bottleneck, which elements are kept.
\<close>

record draws =
  module_draw :: real
  keep :: "nat \<Rightarrow> bool"

text \<open>\<open>LoRAWModule.forward(x)\<close>.\<close>

definition LoRAWModule_forward :: "LoRAWAdapter \<Rightarrow> draws \<Rightarrow> tensor \<Rightarrow> error + tensor" where
  "LoRAWModule_forward self rng x =
     (if (case module_dropout self of None \<Rightarrow> False
          | Some p \<Rightarrow> training self \<and> module_draw rng < p)
      then original_forward self x
      else
        (case layer_forward (lora_down self) x of
           Inl e \<Rightarrow> Inl e
         | Inr lx \<Rightarrow>
             (case (case dropout self of
                      None \<Rightarrow> Inr lx
                    | Some p \<Rightarrow> if training self then F_dropout lx p (keep rng) else Inr lx) of
                Inl e \<Rightarrow> Inl e
              | Inr lx \<Rightarrow>
                  (case layer_forward (lora_up self) lx of
                     Inl e \<Rightarrow> Inl e
                   | Inr lx \<Rightarrow>
                       (case original_forward self x of
                          Inl e \<Rightarrow> Inl e
                        | Inr y \<Rightarrow>
                            tensor_add y
                              (tensor_scale (tensor_scale lx (scale self)) (multiplier self)))))))"

text \<open>The type name of an adapter object.\<close>

definition adapter_class :: "LoRAWAdapter \<Rightarrow> string" where
  "adapter_class self =
     (case attrs (lora_down self) of
        LinearAttrs i out \<Rightarrow> ''LoRAWLinear''
      | Conv1dAttrs c \<Rightarrow> ''LoRAWConv1d'')"

text \<open>
  \<open>inject(parent_module)\<close>: the child table of the parent gets the adapter under the
  last segment of its \<open>lora_name\<close>. The result is the parent after the assignment.
\<close>

definition inject :: "LoRAWAdapter \<Rightarrow> host \<Rightarrow> host" where
  "inject self parent_module =
     Module (class_name parent_module) (payload parent_module)
       (AList.update (last (split_on (CHR ''/'') (lora_name self)))
          (Module (adapter_class self) (AdapterObject (lora_name self)) [])
          (children parent_module))"

text \<open>
  The assignment \<open>m.forward = self.forward\<close> on a module of the host: its instance
  attribute \<open>forward\<close> is bound to the \<open>forward\<close> of the adapter \<open>name\<close>.
\<close>

fun bind_forward :: "string \<Rightarrow> host \<Rightarrow> host" where
  "bind_forward name (Module c (HostObject i k f) ch) = Module c (HostObject i k (Some name)) ch"
| "bind_forward name (Module c (AdapterObject n) ch) = Module c (AdapterObject n) ch"

text \<open>
  \<open>inject_forward()\<close>: the instance attribute \<open>forward\<close> of the original module is bound
  to the adapter's \<open>forward\<close>, and the adapter's attribute \<open>original_module\<close> is
  deleted. The result is the original module after the assignment, and the adapter;
  without the attribute the call raises AttributeError.
\<close>

definition inject_forward :: "LoRAWAdapter \<Rightarrow> error + host \<times> LoRAWAdapter" where
  "inject_forward self =
     (case original_module self of
        None \<Rightarrow> Inl AttributeError
      | Some m \<Rightarrow> Inr (bind_forward (lora_name self) m, self\<lparr>original_module := None\<rparr>))"

text \<open>
  Calling a module of the host graph, \<open>m(x)\<close>, where \<open>lora_modules\<close> are the adapters
  of the network: the instance attribute \<open>forward\<close> if it is bound, the forward of
  the class otherwise; an adapter registered as a child runs its own \<open>forward\<close>.
\<close>

definition run_adapter ::
  "(string \<times> LoRAWAdapter) list \<Rightarrow> string \<Rightarrow> draws \<Rightarrow> tensor \<Rightarrow> error + tensor"
where
  "run_adapter lora_modules name rng x =
     (case map_of lora_modules name of
        None \<Rightarrow> Inl KeyError
      | Some a \<Rightarrow> LoRAWModule_forward a rng x)"

fun call_module ::
  "(string \<times> LoRAWAdapter) list \<Rightarrow> host \<Rightarrow> draws \<Rightarrow> tensor \<Rightarrow> error + tensor"
where
  "call_module lora_modules (Module c (HostObject i k None) ch) rng x = class_forward k x"
| "call_module lora_modules (Module c (HostObject i k (Some name)) ch) rng x =
     run_adapter lora_modules name rng x"
| "call_module lora_modules (Module c (AdapterObject name) ch) rng x =
     run_adapter lora_modules name rng x"

text \<open>Calling the child \<open>name\<close> of a module, as the forward of a parent does.\<close>

definition call_child ::
  "(string \<times> LoRAWAdapter) list \<Rightarrow> host \<Rightarrow> string \<Rightarrow> draws \<Rightarrow> tensor \<Rightarrow> error + tensor"
where
  "call_child lora_modules parent_module name rng x =
     (case get_child parent_module name of
        Inl e \<Rightarrow> Inl e
      | Inr m \<Rightarrow> call_module lora_modules m rng x)"

section \<open>The adapter network\<close>

text \<open>
  \<open>LoRAWNetwork\<close>: the flag \<open>active\<close>, the settings given at construction, and the
  ordered dictionary \<open>lora_modules\<close> from qualified identity to adapter.
\<close>

record LoRAWNetwork =
  active :: bool
  net_multiplier :: real
  net_lora_dim :: nat
  net_alpha :: "real option"
  net_dropout :: "real option"
  net_module_dropout :: "real option"
  net_device :: string
  lora_modules :: "(string \<times> LoRAWAdapter) list"

text \<open>
  The loop of \<open>LoRAWNetwork.__init__\<close>: the adapter class is looked up in
  \<open>TargetableModules\<close> by the type name of the target and called with the settings
  of the network. \<open>rnd name\<close> is the source of the random initial values of the
  adapter \<open>name\<close>.
\<close>

fun build_lora_modules ::
  "node module_map \<Rightarrow> real \<Rightarrow> nat \<Rightarrow> real option \<Rightarrow> real option \<Rightarrow> real option \<Rightarrow>
   (string \<Rightarrow> nat \<Rightarrow> real) \<Rightarrow> (string \<times> LoRAWAdapter) list \<Rightarrow>
   error + (string \<times> LoRAWAdapter) list"
where
  "build_lora_modules [] mult rank alpha drp mdrp rnd acc = Inr acc"
| "build_lora_modules ((name, info) # rest) mult rank alpha drp mdrp rnd acc =
     (case (if class_name (target_module info) = ''Linear'' then
              LoRAWLinear_init name (target_module info) (Given mult) (Given rank) (Given alpha)
                (Given drp) (Given mdrp) (rnd name)
            else if class_name (target_module info) = ''Conv1d'' then
              LoRAWConv1d_init name (target_module info) (Given mult) (Given rank) (Given alpha)
                (Given drp) (Given mdrp) (rnd name)
            else Inl KeyError) of
        Inl e \<Rightarrow> Inl e
      | Inr a \<Rightarrow>
          build_lora_modules rest mult rank alpha drp mdrp rnd (AList.update name a acc))"

definition LoRAWNetwork_init ::
  "node module_map \<Rightarrow> real arg \<Rightarrow> nat arg \<Rightarrow> real option arg \<Rightarrow> real option arg \<Rightarrow>
   real option arg \<Rightarrow> (string \<Rightarrow> nat \<Rightarrow> real) \<Rightarrow> error + LoRAWNetwork"
where
  "LoRAWNetwork_init target_map multiplier_arg lora_dim_arg alpha_arg dropout_arg
       module_dropout_arg rnd =
     (let mult = arg_or 1 multiplier_arg; rank = arg_or 16 lora_dim_arg;
          alpha = arg_or (Some 1) alpha_arg; drp = arg_or None dropout_arg;
          mdrp = arg_or None module_dropout_arg
      in case build_lora_modules target_map mult rank alpha drp mdrp rnd [] of
           Inl e \<Rightarrow> Inl e
         | Inr ms \<Rightarrow>
             Inr \<lparr>active = False, net_multiplier = mult, net_lora_dim = rank, net_alpha = alpha,
                  net_dropout = drp, net_module_dropout = mdrp, net_device = ''cpu'',
                  lora_modules = ms\<rparr>)"

text \<open>
  An assignment to an attribute of an object of the host graph changes the object
  wherever the graph holds it: the object is found by its identity.
\<close>

fun update_object :: "object_id \<Rightarrow> (host \<Rightarrow> host) \<Rightarrow> host \<Rightarrow> host" where
  "update_object i f (Module c p ch) =
     (let m = Module c p (map (\<lambda>(name, k). (name, update_object i f k)) ch)
      in if node_id p = i then f m else m)"

text \<open>
  \<open>LoRAWNetwork.activate(target_map)\<close>: every adapter is injected into the parent
  recorded for it. The host graph is part of the state; when a lookup in
  \<open>target_map\<close> fails, the adapters before it have been injected.
\<close>

fun activate_loop ::
  "node module_map \<Rightarrow> (string \<times> LoRAWAdapter) list \<Rightarrow> host \<Rightarrow> (error + unit) \<times> host"
where
  "activate_loop target_map [] model = (Inr (), model)"
| "activate_loop target_map ((name, m) # rest) model =
     (case map_of target_map name of
        None \<Rightarrow> (Inl KeyError, model)
      | Some info \<Rightarrow>
          activate_loop target_map rest
            (update_object (node_id (payload (target_parent info))) (inject m) model))"

definition LoRAWNetwork_activate ::
  "LoRAWNetwork \<Rightarrow> node module_map \<Rightarrow> host \<Rightarrow> (error + unit) \<times> LoRAWNetwork \<times> host"
where
  "LoRAWNetwork_activate self target_map model =
     (case activate_loop target_map (lora_modules self) model of
        (Inl e, model') \<Rightarrow> (Inl e, self, model')
      | (Inr u, model') \<Rightarrow> (Inr (), self\<lparr>active := True\<rparr>, model'))"

text \<open>\<open>LoRAWNetwork.activate_forward()\<close>.\<close>

fun activate_forward_loop ::
  "(string \<times> LoRAWAdapter) list \<Rightarrow> host \<Rightarrow>
   (error + unit) \<times> (string \<times> LoRAWAdapter) list \<times> host"
where
  "activate_forward_loop [] model = (Inr (), [], model)"
| "activate_forward_loop ((name, m) # rest) model =
     (case inject_forward m of
        Inl e \<Rightarrow> (Inl e, (name, m) # rest, model)
      | Inr (original', m') \<Rightarrow>
          (case activate_forward_loop rest
                  (update_object (node_id (payload original')) (bind_forward (lora_name m)) model) of
             (r, rest', model') \<Rightarrow> (r, (name, m') # rest', model')))"

definition LoRAWNetwork_activate_forward ::
  "LoRAWNetwork \<Rightarrow> host \<Rightarrow> (error + unit) \<times> LoRAWNetwork \<times> host"
where
  "LoRAWNetwork_activate_forward self model =
     (case activate_forward_loop (lora_modules self) model of
        (Inl e, ms, model') \<Rightarrow> (Inl e, self\<lparr>lora_modules := ms\<rparr>, model')
      | (Inr u, ms, model') \<Rightarrow> (Inr (), self\<lparr>active := True, lora_modules := ms\<rparr>, model'))"

text \<open>\<open>LoRAWNetwork.set_multiplier(multiplier)\<close>.\<close>

definition set_multiplier :: "LoRAWNetwork \<Rightarrow> real \<Rightarrow> LoRAWNetwork" where
  "set_multiplier self m =
     self\<lparr>net_multiplier := m,
          lora_modules := map (\<lambda>(name, a). (name, a\<lparr>multiplier := m\<rparr>)) (lora_modules self)\<rparr>"

section \<open>The wrapper\<close>

text \<open>
  \<open>LoRAWWrapper\<close>. The attribute \<open>lr\<close> is unset until the preparation for
  training. \<open>residual_modules\<close> holds the projections of the adapters of the
  network, the same objects under other names, so it is computed from the network
  and not stored a second time.
\<close>

record LoRAWWrapper =
  target_model :: host
  model_type :: "string option"
  target_blocks :: "string list"
  component_whitelist :: "string list option"
  is_active :: bool
  is_trainable :: bool
  target_map :: "node module_map"
  net :: LoRAWNetwork
  lr :: "real option"

text \<open>
  \<open>LoRAWWrapper.__init__\<close>: the scan, with the whitelist and no blacklist, then the
  network.
\<close>

definition LoRAWWrapper_init ::
  "host \<Rightarrow> string option arg \<Rightarrow> string list arg \<Rightarrow> string list option arg \<Rightarrow> real arg \<Rightarrow>
   nat arg \<Rightarrow> real option arg \<Rightarrow> real option arg \<Rightarrow> real option arg \<Rightarrow>
   (string \<Rightarrow> nat \<Rightarrow> real) \<Rightarrow> error + LoRAWWrapper"
where
  "LoRAWWrapper_init model model_type_arg target_blocks_arg component_whitelist_arg
       multiplier_arg lora_dim_arg alpha_arg dropout_arg module_dropout_arg rnd =
     (let blocks = arg_or [''Attention''] target_blocks_arg;
          whitelist = arg_or None component_whitelist_arg
      in case scan_model model blocks whitelist None of
           Inl e \<Rightarrow> Inl e
         | Inr tm \<Rightarrow>
             (case LoRAWNetwork_init tm (Given (arg_or 1 multiplier_arg))
                     (Given (arg_or 16 lora_dim_arg)) (Given (arg_or (Some 1) alpha_arg))
                     (Given (arg_or None dropout_arg)) (Given (arg_or None module_dropout_arg))
                     rnd of
                Inl e \<Rightarrow> Inl e
              | Inr n \<Rightarrow>
                  Inr \<lparr>target_model = model, model_type = arg_or None model_type_arg,
                       target_blocks = blocks, component_whitelist = whitelist,
                       is_active = False, is_trainable = False, target_map = tm, net = n,
                       lr = None\<rparr>))"

text \<open>
  The module dictionary \<open>residual_modules\<close>: for every adapter \<open>name\<close>, in order, the
  entries \<open>name/lora_down\<close> and \<open>name/lora_up\<close>.
\<close>

definition adapter_layers :: "string \<times> LoRAWAdapter \<Rightarrow> (string \<times> layer) list" where
  "adapter_layers =
     (\<lambda>(name, m). [(name @ ''/lora_down'', lora_down m), (name @ ''/lora_up'', lora_up m)])"

definition residual_modules :: "(string \<times> LoRAWAdapter) list \<Rightarrow> (string \<times> layer) list" where
  "residual_modules ms = assign_all (concat (map adapter_layers ms)) []"

subsection \<open>Activation and preparation for training\<close>

text \<open>
  \<open>LoRAWWrapper.activate()\<close>. A failed assertion leaves the wrapper as it was.
\<close>

definition activate :: "LoRAWWrapper \<Rightarrow> (error + unit) \<times> LoRAWWrapper" where
  "activate self =
     (if is_active self then (Inl AssertionError, self)
      else
        (case LoRAWNetwork_activate (net self) (target_map self) (target_model self) of
           (Inl e, n, model) \<Rightarrow> (Inl e, self\<lparr>net := n, target_model := model\<rparr>)
         | (Inr u, n, model) \<Rightarrow>
             (Inr (), self\<lparr>net := n, target_model := model, is_active := True\<rparr>)))"

text \<open>Setting \<open>requires_grad\<close> of every parameter of a layer, of a host graph.\<close>

definition set_requires_grad_layer :: "bool \<Rightarrow> layer \<Rightarrow> layer" where
  "set_requires_grad_layer g l =
     l\<lparr>weight := (weight l)\<lparr>requires_grad := g\<rparr>,
       bias := map_option (\<lambda>b. b\<lparr>requires_grad := g\<rparr>) (bias l)\<rparr>"

fun set_requires_grad_node :: "bool \<Rightarrow> node \<Rightarrow> node" where
  "set_requires_grad_node g (HostObject i (Opaque ps fw) f) =
     HostObject i (Opaque (map (\<lambda>(name, q). (name, q\<lparr>requires_grad := g\<rparr>)) ps) fw) f"
| "set_requires_grad_node g (HostObject i (Layer l) f) =
     HostObject i (Layer (set_requires_grad_layer g l)) f"
| "set_requires_grad_node g (AdapterObject name) = AdapterObject name"

fun set_requires_grad_host :: "bool \<Rightarrow> host \<Rightarrow> host" where
  "set_requires_grad_host g (Module c p ch) =
     Module c (set_requires_grad_node g p)
       (map (\<lambda>(name, k). (name, set_requires_grad_host g k)) ch)"

text \<open>
  The same for the two projections of an adapter, and for its original module, which
  is a child of the adapter as long as the attribute exists.
\<close>

definition set_requires_grad_residual :: "bool \<Rightarrow> LoRAWAdapter \<Rightarrow> LoRAWAdapter" where
  "set_requires_grad_residual g a =
     a\<lparr>lora_down := set_requires_grad_layer g (lora_down a),
       lora_up := set_requires_grad_layer g (lora_up a)\<rparr>"

definition set_requires_grad_original :: "bool \<Rightarrow> LoRAWAdapter \<Rightarrow> LoRAWAdapter" where
  "set_requires_grad_original g a =
     a\<lparr>original_module := map_option (set_requires_grad_host g) (original_module a)\<rparr>"

text \<open>The adapters that structural injection has registered in a host graph.\<close>

fun registered_adapters :: "host \<Rightarrow> string list" where
  "registered_adapters (Module c p ch) =
     (case p of AdapterObject name \<Rightarrow> [name] | HostObject i k f \<Rightarrow> [])
     @ concat (map (\<lambda>(name, k). registered_adapters k) ch)"

text \<open>
  The trainer the wrapper is prepared for: its device, its learning rate, its hook
  \<open>configure_optimizers\<close> (the trainer's own, or the wrapper's, which builds an Adam
  optimizer over the parameters of \<open>residual_modules\<close>), and its other attributes, among
  which a shadow model may be.
\<close>

datatype optimizer_hook = TrainerOptimizers | ResidualOptimizers

record 'e training_wrapper =
  device :: string
  trainer_lr :: real
  configure_optimizers :: optimizer_hook
  attributes :: "(string \<times> 'e) list"

text \<open>
  \<open>LoRAWWrapper.prepare_for_training(training_wrapper, lr=None)\<close>. The table
  \<open>EMA_MODEL\<close> and the function \<open>trim_ema\<close> come from modules of the repository that
  are not in the source tree; they are arguments here. The first loop reaches the
  parameters of the host graph, and through a registered adapter its projections and
  its original module; the second loop makes the projections of all adapters
  trainable.
\<close>

definition prepare_for_training ::
  "(string \<times> string) list \<Rightarrow> ('e \<Rightarrow> error + 'e) \<Rightarrow> LoRAWWrapper \<Rightarrow> 'e training_wrapper \<Rightarrow>
   real option arg \<Rightarrow> (error + unit) \<times> LoRAWWrapper \<times> 'e training_wrapper"
where
  "prepare_for_training EMA_MODEL trim_ema self trainer lr_arg =
     (if \<not> is_active self then (Inl AssertionError, self, trainer)
      else
        let registered = set (registered_adapters (target_model self));
            frozen = map (\<lambda>(name, a).
                       (name, if name \<in> registered
                              then set_requires_grad_original False
                                     (set_requires_grad_residual False a)
                              else a)) (lora_modules (net self));
            unfrozen = map (\<lambda>(name, a). (name, set_requires_grad_residual True a)) frozen;
            self1 = self\<lparr>target_model := set_requires_grad_host False (target_model self),
                        net := (net self)\<lparr>lora_modules := unfrozen,
                                          net_device := device trainer\<rparr>,
                        lr := Some (case arg_or None lr_arg of
                                      None \<Rightarrow> trainer_lr trainer
                                    | Some v \<Rightarrow> v)\<rparr>;
            trainer1 = trainer\<lparr>configure_optimizers := ResidualOptimizers\<rparr>
        in
          (case (case model_type self of
                   None \<Rightarrow> Inr trainer1
                 | Some t \<Rightarrow>
                     (case map_of EMA_MODEL t of
                        None \<Rightarrow> Inr trainer1
                      | Some attr \<Rightarrow>
                          (case map_of (attributes trainer1) attr of
                             None \<Rightarrow> Inl AttributeError
                           | Some ema \<Rightarrow>
                               (case trim_ema ema of
                                  Inl e \<Rightarrow> Inl e
                                | Inr ema' \<Rightarrow>
                                    Inr (trainer1\<lparr>attributes :=
                                           AList.update attr ema' (attributes trainer1)\<rparr>))))) of
             Inl e \<Rightarrow> (Inl e, self1, trainer1)
           | Inr trainer2 \<Rightarrow> (Inr (), self1\<lparr>is_trainable := True\<rparr>, trainer2)))"

subsection \<open>Saving, loading and merging weights\<close>

text \<open>
  A tensor of a state dictionary or of a file: its values and its element type.
\<close>

record saved_tensor =
  saved_value :: tensor
  saved_dtype :: dtype

definition detach :: "parameter \<Rightarrow> saved_tensor" where
  "detach q = \<lparr>saved_value = pvalue q, saved_dtype = pdtype q\<rparr>"

text \<open>The named parameters of a module dictionary of layers, in order.\<close>

definition named_parameters :: "(string \<times> layer) list \<Rightarrow> (string \<times> parameter) list" where
  "named_parameters layers =
     concat (map (\<lambda>(key, l).
        (key @ ''.weight'', weight l) #
        (case bias l of None \<Rightarrow> [] | Some b \<Rightarrow> [(key @ ''.bias'', b)])) layers)"

text \<open>\<open>self.residual_modules.state_dict()\<close>.\<close>

definition state_dict :: "LoRAWWrapper \<Rightarrow> (string \<times> saved_tensor) list" where
  "state_dict self =
     map (\<lambda>(key, q). (key, detach q))
       (named_parameters (residual_modules (lora_modules (net self))))"

text \<open>
  The files: a path holds a saved dictionary or nothing.
\<close>

type_synonym files = "string \<Rightarrow> (string \<times> saved_tensor) list option"

text \<open>
  \<open>save_weights(path, dtype=torch.float16)\<close>. The result is the file system after
  \<open>torch.save\<close>.
\<close>

definition save_weights :: "LoRAWWrapper \<Rightarrow> string \<Rightarrow> dtype arg \<Rightarrow> files \<Rightarrow> files" where
  "save_weights self path dtype_arg fs = fs(path \<mapsto> state_dict self)"

text \<open>
  A tensor of a state dictionary shares its storage with a parameter of a
  projection: changing it in place changes the projection of the adapter. The
  parameter is found by its key.
\<close>

definition update_layer_parameter ::
  "string \<Rightarrow> string \<Rightarrow> (parameter \<Rightarrow> parameter) \<Rightarrow> layer \<Rightarrow> layer"
where
  "update_layer_parameter key k f l =
     (if k = key @ ''.weight'' then l\<lparr>weight := f (weight l)\<rparr>
      else if k = key @ ''.bias'' then l\<lparr>bias := map_option f (bias l)\<rparr>
      else l)"

definition update_parameter ::
  "string \<Rightarrow> (parameter \<Rightarrow> parameter) \<Rightarrow> (string \<times> LoRAWAdapter) list \<Rightarrow>
   (string \<times> LoRAWAdapter) list"
where
  "update_parameter k f ms =
     map (\<lambda>(name, a).
            (name, a\<lparr>lora_down := update_layer_parameter (name @ ''/lora_down'') k f (lora_down a),
                     lora_up := update_layer_parameter (name @ ''/lora_up'') k f (lora_up a)\<rparr>)) ms"

text \<open>\<open>param.copy_(t)\<close> for a tensor of the shape of the parameter.\<close>

definition copy_values :: "tensor \<Rightarrow> parameter \<Rightarrow> parameter" where
  "copy_values t q = q\<lparr>pvalue := t\<rparr>"

text \<open>
  \<open>Module.load_state_dict(weights, strict=False)\<close> on \<open>residual_modules\<close>, as the
  library does it. The module dictionary is loaded first: it has no parameters of
  its own. Then every projection is loaded, in order, under the prefix of its name
  and a dot: a parameter whose key the file has is copied when the shapes agree, and
  one whose key the file lacks is reported missing. A shape that does not agree is an
  error raised at the end, after the other keys have been copied. (The conversion of
  a one-element vector for a parameter without dimensions is left out: the weight
  of a projection has two or three dimensions.)

  A key of the file is reported unexpected by a module when it starts with the
  prefix of the module and, the prefix removed, either has a dot and its segment
  before the first dot is not a child of the module, or has no dot and is not a
  parameter of the module; the key \<open>_extra_state\<close> of a module, which has no extra
  state, is reported first. This is the test of the current library; earlier
  releases tested only that the first segment is neither a child nor a parameter.
  The module dictionary has children and no parameter, a projection has parameters
  and no child.
\<close>

record load_info =
  missing_keys :: "string list"
  unexpected_keys :: "string list"

text \<open>\<open>key.split(".", 1)[0]\<close> and \<open>key.startswith(prefix)\<close>.\<close>

definition head_name :: "string \<Rightarrow> string" where
  "head_name k = takeWhile (\<lambda>c. c \<noteq> CHR ''.'') k"

definition starts_with :: "string \<Rightarrow> string \<Rightarrow> bool" where
  "starts_with k p = (take (length p) k = p)"

text \<open>The names of the parameters of a layer.\<close>

definition local_names :: "layer \<Rightarrow> string list" where
  "local_names l = ''weight'' # (case bias l of None \<Rightarrow> [] | Some b \<Rightarrow> [''bias''])"

definition module_unexpected ::
  "string \<Rightarrow> string list \<Rightarrow> string list \<Rightarrow> string list \<Rightarrow> string list"
where
  "module_unexpected prefix modules local_state keys =
     (if prefix @ ''_extra_state'' \<in> set keys then [prefix @ ''_extra_state''] else [])
     @ filter (\<lambda>k. starts_with k prefix \<and> k \<noteq> prefix @ ''_extra_state''
                  \<and> (let input_name = drop (length prefix) k
                      in if CHR ''.'' \<in> set input_name
                         then head_name input_name \<notin> set modules
                         else input_name \<notin> set local_state)) keys"

fun load_loop ::
  "(string \<times> saved_tensor) list \<Rightarrow> (string \<times> parameter) list \<Rightarrow>
   (string \<times> LoRAWAdapter) list \<Rightarrow> (string \<times> LoRAWAdapter) list"
where
  "load_loop weights [] ms = ms"
| "load_loop weights ((k, q) # rest) ms =
     (case map_of weights k of
        None \<Rightarrow> load_loop weights rest ms
      | Some t \<Rightarrow>
          if shape (saved_value t) = shape (pvalue q)
          then load_loop weights rest (update_parameter k (copy_values (saved_value t)) ms)
          else load_loop weights rest ms)"

definition load_state_dict ::
  "(string \<times> LoRAWAdapter) list \<Rightarrow> (string \<times> saved_tensor) list \<Rightarrow>
   (error + load_info) \<times> (string \<times> LoRAWAdapter) list"
where
  "load_state_dict ms weights =
     (let layers = residual_modules ms;
          own = named_parameters layers;
          keys = map fst weights;
          mismatched = filter (\<lambda>(k, q). case map_of weights k of
                                 None \<Rightarrow> False
                               | Some t \<Rightarrow> shape (saved_value t) \<noteq> shape (pvalue q)) own
      in (if mismatched = []
          then Inr \<lparr>missing_keys = filter (\<lambda>k. map_of weights k = None) (map fst own),
                    unexpected_keys =
                      module_unexpected [] (map fst layers) [] keys
                      @ concat (map (\<lambda>(c, l). module_unexpected (c @ ''.'') [] (local_names l) keys)
                                  layers)\<rparr>
          else Inl RuntimeError,
          load_loop weights own ms))"

text \<open>\<open>load_weights(path)\<close>; \<open>torch.load\<close> of a path without a file raises.\<close>

definition load_weights ::
  "LoRAWWrapper \<Rightarrow> string \<Rightarrow> files \<Rightarrow> (error + load_info) \<times> LoRAWWrapper"
where
  "load_weights self path fs =
     (case fs path of
        None \<Rightarrow> (Inl FileNotFoundError, self)
      | Some weights \<Rightarrow>
          (case load_state_dict (lora_modules (net self)) weights of
             (r, ms) \<Rightarrow> (r, self\<lparr>net := (net self)\<lparr>lora_modules := ms\<rparr>\<rparr>)))"

text \<open>
  \<open>merge_weights(path, multiplier=1.0)\<close>. For every key of the file in order: the
  tensor of the state dictionary (a missing key raises KeyError), the sum
  \<open>param + weight * multiplier\<close> with broadcasting, and \<open>copy_\<close> of the sum, which
  must have the shape of the parameter. An error leaves the keys merged before it
  merged.
\<close>

fun merge_loop ::
  "(string \<times> saved_tensor) list \<Rightarrow> real \<Rightarrow> (string \<times> LoRAWAdapter) list \<Rightarrow>
   (error + unit) \<times> (string \<times> LoRAWAdapter) list"
where
  "merge_loop [] mult ms = (Inr (), ms)"
| "merge_loop ((name, w) # rest) mult ms =
     (case map_of (named_parameters (residual_modules ms)) name of
        None \<Rightarrow> (Inl KeyError, ms)
      | Some param \<Rightarrow>
          (case tensor_add (pvalue param) (tensor_scale (saved_value w) mult) of
             Inl e \<Rightarrow> (Inl e, ms)
           | Inr merged \<Rightarrow>
               if shape merged = shape (pvalue param)
               then merge_loop rest mult (update_parameter name (copy_values merged) ms)
               else (Inl RuntimeError, ms)))"

definition merge_weights ::
  "LoRAWWrapper \<Rightarrow> string \<Rightarrow> real arg \<Rightarrow> files \<Rightarrow> (error + unit) \<times> LoRAWWrapper"
where
  "merge_weights self path multiplier_arg fs =
     (case fs path of
        None \<Rightarrow> (Inl FileNotFoundError, self)
      | Some weights \<Rightarrow>
          (case merge_loop weights (arg_or 1 multiplier_arg) (lora_modules (net self)) of
             (r, ms) \<Rightarrow> (r, self\<lparr>net := (net self)\<lparr>lora_modules := ms\<rparr>\<rparr>)))"

subsection \<open>Well-formed layers and rates\<close>

text \<open>
  What the constructors of the layers guarantee: the weight and the bias have the
  shapes the attributes announce, and the number of groups of a convolution divides
  its numbers of channels.
\<close>

definition layer_ok :: "layer \<Rightarrow> bool" where
  "layer_ok l =
     (case attrs l of
        LinearAttrs in_f out_f \<Rightarrow>
          shape (pvalue (weight l)) = [out_f, in_f]
          \<and> (case bias l of None \<Rightarrow> True | Some b \<Rightarrow> shape (pvalue b) = [out_f])
      | Conv1dAttrs c \<Rightarrow>
          groups c \<noteq> 0 \<and> in_channels c mod groups c = 0 \<and> out_channels c mod groups c = 0
          \<and> shape (pvalue (weight l)) = [out_channels c, in_channels c div groups c, kernel_size c]
          \<and> (case bias l of None \<Rightarrow> True | Some b \<Rightarrow> shape (pvalue b) = [out_channels c]))"

text \<open>
  The layers whose output the two projections of an adapter reproduce in shape: a
  dense layer, and a convolution whose dilated kernel is as long as the kernel
  (the down projection takes the kernel size, the stride and the padding of the
  original, and not its dilation).
\<close>

definition undilated :: "layer \<Rightarrow> bool" where
  "undilated l =
     (case attrs l of
        LinearAttrs in_f out_f \<Rightarrow> True
      | Conv1dAttrs c \<Rightarrow> dilation c = 1 \<or> kernel_size c = 1)"

text \<open>A dropout rate, when set, is a probability.\<close>

definition rate_ok :: "real option \<Rightarrow> bool" where
  "rate_ok r = (case r of None \<Rightarrow> True | Some p \<Rightarrow> 0 \<le> p \<and> p \<le> 1)"

text \<open>A module of the host that is a well-formed layer of this kind.\<close>

definition target_ok :: "host \<Rightarrow> bool" where
  "target_ok m =
     (case payload m of
        HostObject i (Layer l) f \<Rightarrow> layer_ok l \<and> undilated l
      | _ \<Rightarrow> False)"

subsection \<open>An example host and wrapper\<close>

text \<open>
  A dense layer with three inputs and two outputs, inside an attention block; the
  adapter of rank 2 built on it, and the wrapper of the model.
\<close>

definition dense_layer :: layer where
  "dense_layer =
     \<lparr>attrs = LinearAttrs 3 2,
      weight = \<lparr>pvalue = \<lparr>shape = [2, 3], data = [1, 2, 3, 4, 5, 6]\<rparr>,
                pdtype = Float32, requires_grad = True\<rparr>,
      bias = Some \<lparr>pvalue = \<lparr>shape = [2], data = [10, 20]\<rparr>,
                   pdtype = Float32, requires_grad = True\<rparr>\<rparr>"

definition dense_host :: host where
  "dense_host = Module ''Linear'' (HostObject 2 (Layer dense_layer) None) []"

definition attention_host :: host where
  "attention_host =
     Module ''Attention'' (HostObject 1 (Opaque [] (\<lambda>x. Inr x)) None) [(''to_k'', dense_host)]"

definition model_host :: host where
  "model_host =
     Module ''Model'' (HostObject 0 (Opaque [] (\<lambda>x. Inr x)) None) [(''blk'', attention_host)]"

definition initial_values :: "nat \<Rightarrow> real" where
  "initial_values i = real i + 1"

definition example_adapter :: LoRAWAdapter where
  "example_adapter =
     \<lparr>lora_name = ''blk/to_k'', lora_dim = 2, multiplier = 1,
      original_module = Some dense_host,
      original_forward = layer_forward dense_layer,
      dropout = None, module_dropout = None, scale = 1 / 2, training = True,
      lora_down =
        \<lparr>attrs = LinearAttrs 3 2,
         weight = \<lparr>pvalue = \<lparr>shape = [2, 3], data = [1, 2, 3, 4, 5, 6]\<rparr>,
                   pdtype = Float32, requires_grad = True\<rparr>,
         bias = None\<rparr>,
      lora_up =
        \<lparr>attrs = LinearAttrs 2 2,
         weight = \<lparr>pvalue = \<lparr>shape = [2, 2], data = [0, 0, 0, 0]\<rparr>,
                   pdtype = Float32, requires_grad = True\<rparr>,
         bias = None\<rparr>\<rparr>"

definition example_wrapper :: LoRAWWrapper where
  "example_wrapper =
     \<lparr>target_model = model_host, model_type = None, target_blocks = [''Attention''],
      component_whitelist = None, is_active = False, is_trainable = False,
      target_map = [(''blk/to_k'', \<lparr>target_module = dense_host, target_parent = attention_host\<rparr>)],
      net = \<lparr>active = False, net_multiplier = 1, net_lora_dim = 2, net_alpha = Some 1,
             net_dropout = None, net_module_dropout = None, net_device = ''cpu'',
             lora_modules = [(''blk/to_k'', example_adapter)]\<rparr>,
      lr = None\<rparr>"

definition example_trainer :: "unit training_wrapper" where
  "example_trainer =
     \<lparr>device = ''cuda'', trainer_lr = 1 / 1000, configure_optimizers = TrainerOptimizers,
      attributes = []\<rparr>"

text \<open>
  A convolution with kernel size 3 and dilation 2, and the adapter of rank 1 built on
  it.
\<close>

definition dilated_layer :: layer where
  "dilated_layer =
     \<lparr>attrs = Conv1dAttrs \<lparr>in_channels = 1, out_channels = 1, kernel_size = 3, stride = 1,
                          padding = 0, dilation = 2, groups = 1\<rparr>,
      weight = \<lparr>pvalue = \<lparr>shape = [1, 1, 3], data = [1, 1, 1]\<rparr>,
                pdtype = Float32, requires_grad = True\<rparr>,
      bias = None\<rparr>"

definition dilated_host :: host where
  "dilated_host = Module ''Conv1d'' (HostObject 3 (Layer dilated_layer) None) []"

definition dilated_adapter :: LoRAWAdapter where
  "dilated_adapter =
     \<lparr>lora_name = ''blk/conv'', lora_dim = 1, multiplier = 1,
      original_module = Some dilated_host,
      original_forward = layer_forward dilated_layer,
      dropout = None, module_dropout = None, scale = 1, training = True,
      lora_down =
        \<lparr>attrs = Conv1dAttrs \<lparr>in_channels = 1, out_channels = 1, kernel_size = 3, stride = 1,
                             padding = 0, dilation = 1, groups = 1\<rparr>,
         weight = \<lparr>pvalue = \<lparr>shape = [1, 1, 3], data = [1, 2, 3]\<rparr>,
                   pdtype = Float32, requires_grad = True\<rparr>,
         bias = None\<rparr>,
      lora_up =
        \<lparr>attrs = Conv1dAttrs \<lparr>in_channels = 1, out_channels = 1, kernel_size = 1, stride = 1,
                             padding = 0, dilation = 1, groups = 1\<rparr>,
         weight = \<lparr>pvalue = \<lparr>shape = [1, 1, 1], data = [0]\<rparr>,
                   pdtype = Float32, requires_grad = True\<rparr>,
         bias = None\<rparr>\<rparr>"

text \<open>
  The same convolution without dilation, and the adapter of rank 1 built on it.
\<close>

definition plain_layer :: layer where
  "plain_layer =
     \<lparr>attrs = Conv1dAttrs \<lparr>in_channels = 1, out_channels = 1, kernel_size = 3, stride = 1,
                          padding = 0, dilation = 1, groups = 1\<rparr>,
      weight = \<lparr>pvalue = \<lparr>shape = [1, 1, 3], data = [1, 1, 1]\<rparr>,
                pdtype = Float32, requires_grad = True\<rparr>,
      bias = None\<rparr>"

definition plain_host :: host where
  "plain_host = Module ''Conv1d'' (HostObject 3 (Layer plain_layer) None) []"

definition plain_adapter :: LoRAWAdapter where
  "plain_adapter =
     dilated_adapter
       \<lparr>original_module := Some plain_host, original_forward := layer_forward plain_layer\<rparr>"

definition some_draws :: draws where
  "some_draws = \<lparr>module_draw = 1 / 2, keep = (\<lambda>i. even i)\<rparr>"

text \<open>
  The example adapter after training: the up projection is no longer zero, and the
  module is in evaluation mode. The network that holds it.
\<close>

definition tuned_adapter :: LoRAWAdapter where
  "tuned_adapter =
     example_adapter
       \<lparr>training := False,
        lora_up := (lora_up example_adapter)
          \<lparr>weight := (weight (lora_up example_adapter))
             \<lparr>pvalue := \<lparr>shape = [2, 2], data = [1, 0, 0, 1]\<rparr>\<rparr>\<rparr>\<rparr>"

definition tuned_network :: LoRAWNetwork where
  "tuned_network = (net example_wrapper)\<lparr>lora_modules := [(''blk/to_k'', tuned_adapter)]\<rparr>"

text \<open>
  Saved adapters. The first has a tensor for the down projection that fits and one
  for the up projection that does not; the second has one tensor, with a first
  dimension of size 1 where the parameter has 2; the third lacks the up projection
  and has two keys that are no parameter of the adapters: one under the up
  projection, one of another adapter.
\<close>

definition ones_2_3 :: saved_tensor where
  "ones_2_3 = \<lparr>saved_value = \<lparr>shape = [2, 3], data = [1, 1, 1, 1, 1, 1]\<rparr>, saved_dtype = Float16\<rparr>"

definition ones_3_3 :: saved_tensor where
  "ones_3_3 =
     \<lparr>saved_value = \<lparr>shape = [3, 3], data = [1, 1, 1, 1, 1, 1, 1, 1, 1]\<rparr>, saved_dtype = Float16\<rparr>"

definition ones_1_3 :: saved_tensor where
  "ones_1_3 = \<lparr>saved_value = \<lparr>shape = [1, 3], data = [1, 1, 1]\<rparr>, saved_dtype = Float16\<rparr>"

definition mismatched_file :: "(string \<times> saved_tensor) list" where
  "mismatched_file =
     [(''blk/to_k/lora_down.weight'', ones_2_3), (''blk/to_k/lora_up.weight'', ones_3_3)]"

definition broadcast_file :: "(string \<times> saved_tensor) list" where
  "broadcast_file = [(''blk/to_k/lora_down.weight'', ones_1_3)]"

definition partial_file :: "(string \<times> saved_tensor) list" where
  "partial_file =
     [(''blk/to_k/lora_down.weight'', ones_2_3),
      (''blk/to_k/lora_up.weight.old'', ones_3_3),
      (''blk/to_v/lora_up.weight'', ones_3_3)]"

text \<open>The example wrapper after the ones have been added to the down projection.\<close>

definition merged_adapter :: LoRAWAdapter where
  "merged_adapter =
     example_adapter
       \<lparr>lora_down := (lora_down example_adapter)
          \<lparr>weight := (weight (lora_down example_adapter))
             \<lparr>pvalue := \<lparr>shape = [2, 3], data = [2, 3, 4, 5, 6, 7]\<rparr>\<rparr>\<rparr>\<rparr>"

definition merged_wrapper :: LoRAWWrapper where
  "merged_wrapper =
     example_wrapper
       \<lparr>net := (net example_wrapper)\<lparr>lora_modules := [(''blk/to_k'', merged_adapter)]\<rparr>\<rparr>"

section \<open>Properties of the scanner\<close>

lemmas scan_example_defs =
  scan_model_def scan_assignments_def attention_model_def attention_block_def
  to_out_block_def linear_leaf_def block_selected_def TargetableModules_members_def
  qualified_id_def replace_char_def get_child_def two_containers_model_def
  nested_blocks_model_def inner_attention_def slash_model_def

subsection \<open>The loops and their assignments\<close>

lemma walk_err: "walk_modules m ns = Inl e \<Longrightarrow> e = KeyError"
  by (induction ns arbitrary: m) (auto simp: get_child_def split: sum.splits option.splits)

lemma sd_assign:
  "scan_decendants an ds am mp =
     (case decendant_assignments an ds am of Inl e \<Rightarrow> Inl e | Inr as \<Rightarrow> Inr (assign_all as mp))"
proof (induction ds arbitrary: am mp)
  case Nil show ?case by (simp add: assign_all_def)
next
  case (Cons d ds)
  obtain dn dm where d: "d = (dn, dm)" by (cases d)
  show ?case unfolding d
    by (simp add: Cons.IH assign_all_def split: sum.splits)
qed

lemma assign_all_append: "assign_all (xs @ ys) d = assign_all ys (assign_all xs d)"
  by (simp add: assign_all_def)

lemma sa_assign:
  "scan_ancestors tb wl bl ns mp =
     (case ancestor_assignments tb wl bl ns of Inl e \<Rightarrow> Inl e | Inr as \<Rightarrow> Inr (assign_all as mp))"
proof (induction ns arbitrary: mp)
  case Nil show ?case by (simp add: assign_all_def)
next
  case (Cons n ns)
  obtain an am where n: "n = (an, am)" by (cases n)
  show ?case unfolding n
    by (simp add: Cons.IH sd_assign assign_all_append split: sum.splits)
qed

lemma map_of_assign_all: "map_of (assign_all as d) = map_of (rev as @ d)"
  by (induction as arbitrary: d) (auto simp: assign_all_def AList.update_conv' map_add_def fun_eq_iff split: option.splits)

lemma distinct_assign_all: "distinct (map fst d) \<Longrightarrow> distinct (map fst (assign_all as d))"
  by (induction as arbitrary: d) (auto simp: assign_all_def AList.distinct_update)

lemma keys_assign_all: "fst ` set (assign_all as d) = fst ` set as \<union> fst ` set d"
proof (induction as arbitrary: d)
  case Nil show ?case by (simp add: assign_all_def)
next
  case (Cons a as)
  obtain k v where a: "a = (k, v)" by (cases a)
  have "assign_all (a # as) d = assign_all as (AList.update k v d)"
    by (simp add: assign_all_def a)
  then show ?case using Cons.IH[of "AList.update k v d"]
    by (simp add: AList.dom_update a Un_ac)
qed

lemma set_update_sub: "set (AList.update k v al) \<subseteq> insert (k, v) (set al)"
  by (induction al) auto

lemma set_assign_all: "set (assign_all as d) \<subseteq> set as \<union> set d"
proof (induction as arbitrary: d)
  case Nil show ?case by (simp add: assign_all_def)
next
  case (Cons a as)
  obtain k v where a: "a = (k, v)" by (cases a)
  have "set (assign_all (a # as) d) = set (assign_all as (AList.update k v d))"
    by (simp add: assign_all_def a)
  also have "\<dots> \<subseteq> set as \<union> set (AList.update k v d)" by (rule Cons.IH)
  also have "\<dots> \<subseteq> set (a # as) \<union> set d" using set_update_sub[of k v d] by (auto simp: a)
  finally show ?case .
qed

lemma da_set:
  "decendant_assignments an ds am = Inr as \<Longrightarrow> (k, e) \<in> set as \<Longrightarrow>
   \<exists>dn. (dn, target_module e) \<in> set ds \<and> class_name (target_module e) \<in> TargetableModules_members
        \<and> k = qualified_id an dn"
proof (induction ds arbitrary: am as)
  case Nil then show ?case by simp
next
  case (Cons d ds)
  obtain dn dm where d: "d = (dn, dm)" by (cases d)
  show ?case
  proof (cases "class_name dm \<in> TargetableModules_members")
    case False
    with Cons.prems have "decendant_assignments an ds am = Inr as" by (simp add: d)
    from Cons.IH[OF this Cons.prems(2)] show ?thesis by auto
  next
    case True
    with Cons.prems(1) obtain am' as' where
      w: "walk_modules am (butlast (split_on (CHR ''.'') dn)) = Inr am'" and
      r: "decendant_assignments an ds am' = Inr as'" and
      as: "as = (qualified_id an dn, \<lparr>target_module = dm, target_parent = am'\<rparr>) # as'"
      by (auto simp: d split: sum.splits)
    from Cons.prems(2) as consider "(k, e) = (qualified_id an dn, \<lparr>target_module = dm, target_parent = am'\<rparr>)"
      | "(k, e) \<in> set as'" by auto
    then show ?thesis
    proof cases
      case 1 then show ?thesis using True by (auto simp: d)
    next
      case 2 from Cons.IH[OF r 2] show ?thesis by auto
    qed
  qed
qed

lemma da_keys:
  "decendant_assignments an ds am = Inr as \<Longrightarrow> (dn, dm) \<in> set ds \<Longrightarrow>
   class_name dm \<in> TargetableModules_members \<Longrightarrow> qualified_id an dn \<in> fst ` set as"
proof (induction ds arbitrary: am as)
  case Nil then show ?case by simp
next
  case (Cons d ds)
  obtain dn' dm' where d: "d = (dn', dm')" by (cases d)
  show ?case
  proof (cases "class_name dm' \<in> TargetableModules_members")
    case False
    with Cons.prems have r: "decendant_assignments an ds am = Inr as" and "(dn, dm) \<in> set ds"
      by (auto simp: d)
    then show ?thesis using Cons.IH Cons.prems(3) by blast
  next
    case True
    with Cons.prems(1) obtain am' as' where
      r: "decendant_assignments an ds am' = Inr as'" and
      as: "as = (qualified_id an dn', \<lparr>target_module = dm', target_parent = am'\<rparr>) # as'"
      by (auto simp: d split: sum.splits)
    show ?thesis
    proof (cases "(dn, dm) = (dn', dm')")
      case True then show ?thesis by (simp add: as)
    next
      case False
      with Cons.prems(2) have "(dn, dm) \<in> set ds" by (auto simp: d)
      from Cons.IH[OF r this Cons.prems(3)] show ?thesis by (simp add: as)
    qed
  qed
qed

lemma aa_set:
  "ancestor_assignments tb wl bl ns = Inr as \<Longrightarrow> (k, e) \<in> set as \<Longrightarrow>
   \<exists>an am dn. (an, am) \<in> set ns \<and> block_selected tb wl bl an am
        \<and> (dn, target_module e) \<in> set (named_modules [] am)
        \<and> class_name (target_module e) \<in> TargetableModules_members
        \<and> k = qualified_id an dn"
proof (induction ns arbitrary: as)
  case Nil then show ?case by simp
next
  case (Cons n ns)
  obtain an am where n: "n = (an, am)" by (cases n)
  show ?case
  proof (cases "block_selected tb wl bl an am")
    case False
    with Cons.prems have "ancestor_assignments tb wl bl ns = Inr as" by (simp add: n)
    from Cons.IH[OF this Cons.prems(2)] show ?thesis by auto
  next
    case True
    with Cons.prems(1) obtain first later where
      f: "decendant_assignments an (named_modules [] am) am = Inr first" and
      l: "ancestor_assignments tb wl bl ns = Inr later" and
      as: "as = first @ later"
      by (auto simp: n split: sum.splits)
    from Cons.prems(2) as consider "(k, e) \<in> set first" | "(k, e) \<in> set later" by auto
    then show ?thesis
    proof cases
      case 1
      from da_set[OF f 1] True show ?thesis by (auto simp: n)
    next
      case 2 from Cons.IH[OF l 2] show ?thesis by auto
    qed
  qed
qed

lemma aa_keys:
  "ancestor_assignments tb wl bl ns = Inr as \<Longrightarrow> (an, am) \<in> set ns \<Longrightarrow>
   block_selected tb wl bl an am \<Longrightarrow> (dn, dm) \<in> set (named_modules [] am) \<Longrightarrow>
   class_name dm \<in> TargetableModules_members \<Longrightarrow> qualified_id an dn \<in> fst ` set as"
proof (induction ns arbitrary: as)
  case Nil then show ?case by simp
next
  case (Cons n ns)
  obtain an' am' where n: "n = (an', am')" by (cases n)
  show ?case
  proof (cases "block_selected tb wl bl an' am'")
    case False
    with Cons.prems have r: "ancestor_assignments tb wl bl ns = Inr as" and "(an, am) \<in> set ns"
      by (auto simp: n)
    then show ?thesis using Cons.IH Cons.prems(3,4,5) by blast
  next
    case True
    with Cons.prems(1) obtain first later where
      f: "decendant_assignments an' (named_modules [] am') am' = Inr first" and
      l: "ancestor_assignments tb wl bl ns = Inr later" and
      as: "as = first @ later"
      by (auto simp: n split: sum.splits)
    show ?thesis
    proof (cases "(an, am) = (an', am')")
      case True
      with da_keys[OF f _ Cons.prems(5), of dn] Cons.prems(4) show ?thesis by (auto simp: as)
    next
      case False
      with Cons.prems(2) have "(an, am) \<in> set ns" by (auto simp: n)
      from Cons.IH[OF l this Cons.prems(3,4,5)] show ?thesis by (auto simp: as)
    qed
  qed
qed

lemma block_selected_iff:
  "block_selected (set tb) (map_option set wl) (map_option set bl) an am \<longleftrightarrow>
     class_name am \<in> set tb
     \<and> (\<forall>w. wl = Some w \<longrightarrow> set (split_on (CHR ''.'') an) \<inter> set w \<noteq> {})
     \<and> (\<forall>b. bl = Some b \<longrightarrow> set (split_on (CHR ''.'') an) \<inter> set b = {})"
  by (cases wl; cases bl) (simp_all add: block_selected_def Let_def)

lemma scan_model_assign:
  "scan_model m tb wl bl =
     (case scan_assignments m tb wl bl of Inl e \<Rightarrow> Inl e | Inr as \<Rightarrow> Inr (assign_all as []))"
  by (simp add: scan_model_def scan_assignments_def sa_assign)


lemma decendant_assignments_error:
  "decendant_assignments an ds am = Inl e \<Longrightarrow> e = KeyError"
proof (induction ds arbitrary: am)
  case Nil then show ?case by simp
next
  case (Cons d ds)
  obtain dn dm where d: "d = (dn, dm)" by (cases d)
  from Cons.prems show ?case unfolding d
    by (auto split: if_splits sum.splits dest: walk_err Cons.IH)
qed

lemma ancestor_assignments_error:
  "ancestor_assignments tb wl bl ns = Inl e \<Longrightarrow> e = KeyError"
proof (induction ns)
  case Nil then show ?case by simp
next
  case (Cons n ns)
  obtain an am where n: "n = (an, am)" by (cases n)
  from Cons.prems show ?case unfolding n
    by (auto split: if_splits sum.splits dest: decendant_assignments_error Cons.IH)
qed

subsection \<open>The recorded parent\<close>

text \<open>
  C2. The claim: the parent recorded for a target is the module whose child table
  holds the target, however many descendants the ancestor block has and in whatever
  order they come. The code walks the relative path from the variable
  \<open>ancestor_module\<close> and leaves the variable at the place the walk reached, so the
  walk for the next descendant starts there and not at the ancestor block. In the
  attention block below, the dense layer \<open>to_k\<close> follows the nested \<open>to_out.0\<close>:
  its recorded parent is the container \<open>to_out\<close>, whose child table does not hold
  it, and not the attention block, whose child table does.
\<close>

theorem scan_model_parent_of_later_sibling:
  "scan_model attention_model [''Attention''] None None =
     Inr [(''blk/to_out/0'', \<lparr>target_module = linear_leaf 3, target_parent = to_out_block\<rparr>),
          (''blk/to_k'', \<lparr>target_module = linear_leaf 5, target_parent = to_out_block\<rparr>)]
   \<and> map_of (children attention_block) ''to_k'' = Some (linear_leaf 5)
   \<and> map_of (children to_out_block) ''to_k'' = None"
  by (simp add: scan_example_defs)

text \<open>
  With a second nested descendant the walk starts inside the first container and
  the lookup of the child fails.
\<close>

lemma scan_model_second_container_KeyError:
  "scan_model two_containers_model [''Attention''] None None = Inl KeyError"
  by (simp add: scan_example_defs)

subsection \<open>Colliding qualified identities\<close>

text \<open>
  C3, as claimed: when two selected descendants produce the same qualified identity
  the scan fails with an assertion. It does not. With a transformer block and the
  attention block inside it both targeted, the dense layer \<open>a.b.c\<close> is assigned
  twice under \<open>a/b/c\<close> and the scan returns. With a child named \<open>b/c\<close> beside a
  child \<open>b\<close> holding \<open>c\<close>, two different layers get the identity \<open>a/b/c\<close> and the
  mapping returned holds the second one only.
\<close>

theorem scan_model_collision_counterexample:
  "scan_assignments nested_blocks_model [''TransformerBlock'', ''Attention''] None None =
     Inr [(''a/b/c'', \<lparr>target_module = linear_leaf 3, target_parent = inner_attention\<rparr>),
          (''a/b/c'', \<lparr>target_module = linear_leaf 3, target_parent = inner_attention\<rparr>)]
   \<and> scan_model nested_blocks_model [''TransformerBlock'', ''Attention''] None None =
     Inr [(''a/b/c'', \<lparr>target_module = linear_leaf 3, target_parent = inner_attention\<rparr>)]
   \<and> scan_assignments slash_model [''Attention''] None None =
     Inr [(''a/b/c'', \<lparr>target_module = linear_leaf 2,
             target_parent = Module ''Attention'' 1
               [(''b/c'', linear_leaf 2), (''b'', Module ''Block'' 3 [(''c'', linear_leaf 4)])]\<rparr>),
          (''a/b/c'', \<lparr>target_module = linear_leaf 4,
             target_parent = Module ''Block'' 3 [(''c'', linear_leaf 4)]\<rparr>)]
   \<and> scan_model slash_model [''Attention''] None None =
     Inr [(''a/b/c'', \<lparr>target_module = linear_leaf 4,
             target_parent = Module ''Block'' 3 [(''c'', linear_leaf 4)]\<rparr>)]"
  by (simp add: scan_example_defs)

text \<open>
  C3, amended: the scan has no uniqueness check and never fails with an assertion.
  An entry is stored by assignment, so when the scan returns, the mapping holds one
  entry for each qualified identity, and it is the one assigned last (\<open>map_of\<close>
  takes the first pair with the key, here of the reversed assignment sequence).
\<close>

theorem scan_model_collision_overwrites:
  "scan_model model blocks whitelist blacklist \<noteq> Inl AssertionError
   \<and> (\<forall>module_map. scan_model model blocks whitelist blacklist = Inr module_map \<longrightarrow>
        (\<exists>assignments.
           scan_assignments model blocks whitelist blacklist = Inr assignments
           \<and> map_of module_map = map_of (rev assignments)
           \<and> distinct (map fst module_map)))"
proof (cases "scan_assignments model blocks whitelist blacklist")
  case (Inl e)
  then have "e = KeyError"
    by (simp add: scan_assignments_def ancestor_assignments_error)
  with Inl show ?thesis by (simp add: scan_model_assign)
next
  case (Inr as)
  have "map_of (assign_all as []) = map_of (rev as)"
    by (simp add: map_of_assign_all)
  moreover have "distinct (map fst (assign_all as ([] :: 'a module_map)))"
    by (rule distinct_assign_all) simp
  ultimately show ?thesis using Inr by (simp add: scan_model_assign)
qed

theorem scan_model_collision_overwrites_witness:
  "scan_model slash_model [''Attention''] None None =
     Inr [(''a/b/c'', \<lparr>target_module = linear_leaf 4,
             target_parent = Module ''Block'' 3 [(''c'', linear_leaf 4)]\<rparr>)]
   \<and> map_of [(''a/b/c'', \<lparr>target_module = linear_leaf 4,
             target_parent = Module ''Block'' 3 [(''c'', linear_leaf 4)]\<rparr>)] =
      map_of (rev
        [(''a/b/c'', \<lparr>target_module = linear_leaf 2,
             target_parent = Module ''Attention'' 1
               [(''b/c'', linear_leaf 2), (''b'', Module ''Block'' 3 [(''c'', linear_leaf 4)])]\<rparr>),
         (''a/b/c'', \<lparr>target_module = linear_leaf 4,
             target_parent = Module ''Block'' 3 [(''c'', linear_leaf 4)]\<rparr>)])"
  using scan_model_collision_overwrites [of slash_model "[''Attention'']" None None]
  by (simp add: scan_example_defs)

subsection \<open>Which blocks and which modules are selected\<close>

text \<open>
  C6. When the scan returns, the qualified identities of the mapping are exactly
  those of the pairs of an ancestor block and a descendant where the block's type
  name is a target block, its path tokens meet the whitelist (when one is given) and
  avoid the blacklist (when one is given), and the descendant's type name is
  \<open>Linear\<close> or \<open>Conv1d\<close>; and every module of the mapping has one of these two
  type names.
\<close>

theorem scan_model_selection:
  assumes "scan_model model blocks whitelist blacklist = Inr module_map"
  shows "fst ` set module_map =
           {qualified_id an dn | an am dn dm.
              (an, am) \<in> set (named_modules [] model) \<and>
              class_name am \<in> set blocks \<and>
              (\<forall>w. whitelist = Some w \<longrightarrow> set (split_on (CHR ''.'') an) \<inter> set w \<noteq> {}) \<and>
              (\<forall>b. blacklist = Some b \<longrightarrow> set (split_on (CHR ''.'') an) \<inter> set b = {}) \<and>
              (dn, dm) \<in> set (named_modules [] am) \<and>
              class_name dm \<in> {''Linear'', ''Conv1d''}}
         \<and> (\<forall>(k, e) \<in> set module_map. class_name (target_module e) \<in> {''Linear'', ''Conv1d''})"
proof -
  let ?tb = "set blocks" and ?wl = "map_option set whitelist" and ?bl = "map_option set blacklist"
  from assms obtain as where
    as: "ancestor_assignments ?tb ?wl ?bl (named_modules [] model) = Inr as" and
    mp: "module_map = assign_all as []"
    by (auto simp: scan_model_assign scan_assignments_def split: sum.splits)
  have keys: "fst ` set module_map = fst ` set as"
    by (simp add: mp keys_assign_all)
  have sub: "set module_map \<subseteq> set as"
    using set_assign_all[of as "[]"] by (simp add: mp)
  have "fst ` set as = {qualified_id an dn | an am dn dm.
              (an, am) \<in> set (named_modules [] model) \<and>
              block_selected ?tb ?wl ?bl an am \<and>
              (dn, dm) \<in> set (named_modules [] am) \<and>
              class_name dm \<in> TargetableModules_members}" (is "?L = ?R")
  proof
    show "?L \<subseteq> ?R"
    proof
      fix k assume "k \<in> ?L"
      then obtain e where "(k, e) \<in> set as" by auto
      from aa_set[OF as this] show "k \<in> ?R" by blast
    qed
    show "?R \<subseteq> ?L"
      using aa_keys[OF as] by blast
  qed
  then have 1: "fst ` set module_map =
           {qualified_id an dn | an am dn dm.
              (an, am) \<in> set (named_modules [] model) \<and>
              class_name am \<in> set blocks \<and>
              (\<forall>w. whitelist = Some w \<longrightarrow> set (split_on (CHR ''.'') an) \<inter> set w \<noteq> {}) \<and>
              (\<forall>b. blacklist = Some b \<longrightarrow> set (split_on (CHR ''.'') an) \<inter> set b = {}) \<and>
              (dn, dm) \<in> set (named_modules [] am) \<and>
              class_name dm \<in> {''Linear'', ''Conv1d''}}"
    unfolding keys by (simp only: block_selected_iff TargetableModules_members_def conj_assoc)
  have 2: "\<forall>(k, e) \<in> set module_map. class_name (target_module e) \<in> {''Linear'', ''Conv1d''}"
  proof -
    have "class_name (target_module e) \<in> {''Linear'', ''Conv1d''}"
      if "(k, e) \<in> set module_map" for k e
    proof -
      from that sub have "(k, e) \<in> set as" by auto
      from aa_set[OF as this] show ?thesis
        by (auto simp: TargetableModules_members_def)
    qed
    then show ?thesis by auto
  qed
  from 1 2 show ?thesis by blast
qed

theorem scan_model_selection_witness:
  "fst ` set [(''blk/to_out/0'', \<lparr>target_module = linear_leaf 3, target_parent = to_out_block\<rparr>),
              (''blk/to_k'', \<lparr>target_module = linear_leaf 5, target_parent = to_out_block\<rparr>)] =
     {qualified_id an dn | an am dn dm.
        (an, am) \<in> set (named_modules [] attention_model) \<and>
        class_name am \<in> set [''Attention''] \<and>
        (\<forall>w. Some [''blk''] = Some w \<longrightarrow> set (split_on (CHR ''.'') an) \<inter> set w \<noteq> {}) \<and>
        (\<forall>b. Some [''ema''] = Some b \<longrightarrow> set (split_on (CHR ''.'') an) \<inter> set b = {}) \<and>
        (dn, dm) \<in> set (named_modules [] am) \<and>
        class_name dm \<in> {''Linear'', ''Conv1d''}}"
proof -
  have "scan_model attention_model [''Attention''] (Some [''blk'']) (Some [''ema'']) =
     Inr [(''blk/to_out/0'', \<lparr>target_module = linear_leaf 3, target_parent = to_out_block\<rparr>),
          (''blk/to_k'', \<lparr>target_module = linear_leaf 5, target_parent = to_out_block\<rparr>)]"
    by (simp add: scan_example_defs)
  from scan_model_selection [OF this] show ?thesis by blast
qed


section \<open>Properties of the adapter module\<close>

lemmas host_example_defs =
  dense_layer_def dense_host_def attention_host_def model_host_def initial_values_def
  example_adapter_def example_wrapper_def example_trainer_def

lemmas tensor_eval_defs =
  layer_forward_def F_linear_def F_conv1d_def conv_out_length_def Let_def get0_def numel_def
  tensor_add_def tensor_sub_def broadcast_op_def broadcast_shapes_def pad_shape_def expand_to_def
  tensor_scale_def F_dropout_def upt_rec

subsection \<open>The examples are what the constructors build\<close>

lemma init_example:
  "LoRAWLinear_init ''blk/to_k'' dense_host (Given 1) (Given 2) (Given (Some 1)) (Given None)
     (Given None) initial_values = Inr example_adapter"
  by (simp add: LoRAWLinear_init_def LoRAWModule_init_def host_example_defs nn_Linear_def
      new_parameter_def kaiming_uniform_def zeros_def numel_def LoRAWModule.defs LoRAWAdapter.defs upt_rec fun_eq_iff eval_nat_numeral)

lemma wrapper_example:
  "LoRAWWrapper_init model_host Omitted Omitted Omitted Omitted (Given 2) Omitted Omitted Omitted
     (\<lambda>name. initial_values) = Inr example_wrapper"
  using init_example
  by (simp add: LoRAWWrapper_init_def LoRAWNetwork_init_def scan_model_def block_selected_def
       TargetableModules_members_def qualified_id_def replace_char_def get_child_def
       example_wrapper_def model_host_def attention_host_def dense_host_def)

subsection \<open>The scale\<close>

text \<open>
  C4, as claimed: an adapter constructed without an explicit \<open>alpha\<close> has scale 1.
  The default of the argument is 1.0 and not \<open>None\<close>, so with the default rank 16
  the scale is 1/16, for \<open>LoRAWModule\<close> and for \<open>LoRAWLinear\<close> alike.
\<close>

theorem default_alpha_counterexample:
  "map_sum id scale (LoRAWModule_init ''blk/to_k'' dense_host Omitted Omitted Omitted Omitted Omitted) = Inr (1 / 16)
   \<and> map_sum id scale (LoRAWLinear_init ''blk/to_k'' dense_host Omitted Omitted Omitted Omitted Omitted initial_values) = Inr (1 / 16)"
  by (simp add: LoRAWModule_init_def LoRAWLinear_init_def dense_host_def dense_layer_def Let_def LoRAWModule.defs)

text \<open>
  C4, amended: for a rank that is not zero the construction succeeds; when \<open>alpha\<close> is
  passed as \<open>None\<close> or as zero it is replaced by the rank and the scale is 1; when
  \<open>alpha\<close> is left out it is 1.0 and the scale is 1/rank; otherwise the scale is
  alpha/rank.
\<close>

theorem LoRAWModule_init_scale:
  assumes "arg_or 16 lora_dim_arg \<noteq> 0"
  shows "\<exists>self. LoRAWModule_init name original multiplier_arg lora_dim_arg alpha_arg dropout_arg
                  module_dropout_arg = Inr self
     \<and> (alpha_arg = Given None \<or> alpha_arg = Given (Some 0) \<longrightarrow> scale self = 1)
     \<and> (alpha_arg = Omitted \<longrightarrow> scale self = 1 / real (arg_or 16 lora_dim_arg))
     \<and> (\<forall>a. alpha_arg = Given (Some a) \<and> a \<noteq> 0 \<longrightarrow> scale self = a / real (arg_or 16 lora_dim_arg))"
  using assms by (auto simp: LoRAWModule_init_def Let_def)

theorem LoRAWModule_init_scale_witness:
  "map_sum id scale (LoRAWModule_init ''blk/to_k'' dense_host Omitted (Given 8) (Given None) Omitted Omitted) = Inr 1
   \<and> map_sum id scale (LoRAWModule_init ''blk/to_k'' dense_host Omitted (Given 8) (Given (Some 0)) Omitted Omitted) = Inr 1
   \<and> map_sum id scale (LoRAWModule_init ''blk/to_k'' dense_host Omitted (Given 8) Omitted Omitted Omitted) = Inr (1 / 8)"
  using LoRAWModule_init_scale [of "Given 8" "''blk/to_k''" dense_host Omitted "Given None" Omitted Omitted]
    LoRAWModule_init_scale [of "Given 8" "''blk/to_k''" dense_host Omitted "Given (Some 0)" Omitted Omitted]
    LoRAWModule_init_scale [of "Given 8" "''blk/to_k''" dense_host Omitted "Omitted" Omitted Omitted]
  by auto

subsection \<open>Tensors of zeros\<close>

lemma broadcast_dims_same: "broadcast_dims s s = Some s"
  by (induction s) auto

lemma pad_shape_same: "pad_shape (length s) s = s"
  by (simp add: pad_shape_def)

lemma broadcast_shapes_same: "broadcast_shapes s s = Some s"
  by (simp add: broadcast_shapes_def pad_shape_same broadcast_dims_same)

lemma map2_add_zeros: "length ys \<le> n \<Longrightarrow> map2 (+) ys (replicate n (0::real)) = ys"
proof (induction ys arbitrary: n)
  case Nil then show ?case by simp
next
  case (Cons y ys)
  then obtain m where "n = Suc m" by (cases n) auto
  with Cons show ?case by simp
qed

lemma tensor_add_zeros:
  assumes "shape z = shape y" "data z = replicate n 0" "length (data y) \<le> n"
  shows "tensor_add y z = Inr y"
  using assms
  by (simp add: tensor_add_def broadcast_op_def broadcast_shapes_same expand_to_def map2_add_zeros)

lemma get0_replicate_zero: "get0 (replicate n 0) i = 0"
  by (simp add: get0_def)

lemma concat_map_const: "concat (map (\<lambda>r. replicate b (c::'a)) xs) = replicate (length xs * b) c"
  by (induction xs) (simp_all add: replicate_add)

lemma concat_replicate_replicate: "concat (replicate a (replicate b (c::'a))) = replicate (a * b) c"
  by (induction a) (simp_all add: replicate_add)

lemma zero_rows:
  "concat (map (\<lambda>r. map (\<lambda>oc. (0::real)) [0..<b]) [0..<a]) = replicate (a * b) 0"
  by (simp add: map_replicate_const concat_replicate_replicate)

lemma sum_list_zero_mult: "(\<Sum>i\<leftarrow>xs. (0::real) * f i) = 0"
  by (induction xs) simp_all

lemma F_linear_zero:
  assumes "shape w = [out_f, in_f]" "data w = replicate m 0"
  shows "F_linear x w None =
     (if shape x = [] \<or> last (shape x) \<noteq> in_f then Inl RuntimeError
      else Inr \<lparr>shape = butlast (shape x) @ [out_f],
                data = replicate (numel (butlast (shape x)) * out_f) 0\<rparr>)"
  using assms by (simp add: F_linear_def get0_replicate_zero zero_rows)

lemma F_linear_shape:
  "F_linear x w b = Inr y \<Longrightarrow> shape w = [out_f, in_f] \<Longrightarrow>
     shape y = butlast (shape x) @ [out_f] \<and> length (data y) = numel (butlast (shape x)) * out_f
     \<and> shape x \<noteq> [] \<and> last (shape x) = in_f"
  by (auto simp: F_linear_def length_concat comp_def sum_list_triv split: if_splits)

lemma F_linear_error: "F_linear x w b = Inl e \<Longrightarrow> e = RuntimeError"
  by (auto simp: F_linear_def split: list.splits if_splits)

lemma F_dropout_ok: "0 \<le> p \<Longrightarrow> p \<le> 1 \<Longrightarrow> \<exists>t'. F_dropout t p k = Inr t' \<and> shape t' = shape t"
  by (auto simp: F_dropout_def)

lemma tensor_scale_zeros:
  "data t = replicate n 0 \<Longrightarrow> data (tensor_scale t c) = replicate n 0"
  by (simp add: tensor_scale_def)

lemma tensor_scale_shape [simp]: "shape (tensor_scale t c) = shape t"
  by (simp add: tensor_scale_def)

subsection \<open>An adapter whose up projection gives zeros\<close>

lemma forward_transparent:
  assumes up: "\<And>lx lx'. layer_forward (lora_down self) x = Inr lx \<Longrightarrow> shape lx' = shape lx \<Longrightarrow>
             \<exists>z n. layer_forward (lora_up self) lx' = Inr z \<and> data z = replicate n 0
                 \<and> (\<forall>y. original_forward self x = Inr y \<longrightarrow> shape z = shape y \<and> length (data y) \<le> n)"
      and fail: "\<And>e. layer_forward (lora_down self) x = Inl e \<Longrightarrow> original_forward self x = Inl e"
      and rate: "rate_ok (dropout self)"
  shows "LoRAWModule_forward self rng x = original_forward self x"
proof (cases "case module_dropout self of None \<Rightarrow> False | Some p \<Rightarrow> training self \<and> module_draw rng < p")
  case True
  then show ?thesis by (simp add: LoRAWModule_forward_def)
next
  case bypass: False
  show ?thesis
  proof (cases "layer_forward (lora_down self) x")
    case (Inl e)
    with bypass fail[OF Inl] show ?thesis by (simp add: LoRAWModule_forward_def)
  next
    case (Inr lx)
    obtain lx' where d: "(case dropout self of None \<Rightarrow> Inr lx
             | Some p \<Rightarrow> if training self then F_dropout lx p (keep rng) else Inr lx) = Inr lx'"
      and s: "shape lx' = shape lx"
    proof (cases "dropout self")
      case None then show ?thesis using that by simp
    next
      case (Some p)
      with rate have "0 \<le> p" "p \<le> 1" by (simp_all add: rate_ok_def)
      from F_dropout_ok[OF this, of lx "keep rng"] Some show ?thesis using that by (cases "training self") auto
    qed
    from up[OF Inr s] obtain z n where
      z: "layer_forward (lora_up self) lx' = Inr z" and zd: "data z = replicate n 0"
      and zy: "\<And>y. original_forward self x = Inr y \<Longrightarrow> shape z = shape y \<and> length (data y) \<le> n"
      by blast
    show ?thesis
    proof (cases "original_forward self x")
      case (Inl e)
      with bypass Inr d z show ?thesis by (simp add: LoRAWModule_forward_def)
    next
      case (Inr y)
      let ?r = "tensor_scale (tensor_scale z (scale self)) (multiplier self)"
      have "tensor_add y ?r = Inr y"
        by (rule tensor_add_zeros[where n=n]) (use zy[OF Inr] zd in \<open>simp_all add: tensor_scale_zeros\<close>)
      with bypass \<open>layer_forward (lora_down self) x = Inr lx\<close> d z Inr show ?thesis
        by (simp add: LoRAWModule_forward_def)
    qed
  qed
qed

lemma sum_list_zero [simp]: "(\<Sum>i\<leftarrow>xs. (0::real)) = 0"
  by (induction xs) simp_all

lemma zero_blocks:
  "concat (map (\<lambda>n. concat (map (\<lambda>oc. map (\<lambda>t. (0::real)) [0..<c]) [0..<b])) [0..<a]) =
   replicate (a * (b * c)) 0"
  by (simp add: map_replicate_const concat_replicate_replicate)

lemma F_conv1d_zero:
  assumes "shape w = [out_c, in_g, k]" "data w = replicate m 0"
  shows "F_conv1d x w None strd pad dil grp =
     (if length (shape x) \<noteq> 2 \<and> length (shape x) \<noteq> 3 then Inl RuntimeError
      else if grp = 0 \<or> strd = 0 \<or> dil = 0 \<or> k = 0 then Inl RuntimeError
      else if last (butlast (shape x)) \<noteq> in_g * grp \<or> out_c mod grp \<noteq> 0 then Inl RuntimeError
      else if last (shape x) + 2 * pad < dil * (k - 1) + 1 then Inl RuntimeError
      else Inr \<lparr>shape = butlast (butlast (shape x)) @ [out_c, conv_out_length (last (shape x)) k strd pad dil],
                data = replicate (numel (butlast (butlast (shape x))) *
                         (out_c * conv_out_length (last (shape x)) k strd pad dil)) 0\<rparr>)"
  using assms by (simp add: F_conv1d_def Let_def get0_replicate_zero zero_blocks)

lemma F_conv1d_shape:
  assumes "F_conv1d x w b strd pad dil grp = Inr y" "shape w = [out_c, in_g, k]"
  shows "shape y = butlast (butlast (shape x)) @ [out_c, conv_out_length (last (shape x)) k strd pad dil]
     \<and> length (data y) = numel (butlast (butlast (shape x))) *
                         (out_c * conv_out_length (last (shape x)) k strd pad dil)"
  using assms
  by (auto simp: F_conv1d_def Let_def length_concat comp_def sum_list_triv split: if_splits)

lemma F_conv1d_error: "F_conv1d x w b strd pad dil grp = Inl e \<Longrightarrow> e = RuntimeError"
  by (auto simp: F_conv1d_def Let_def split: list.splits if_splits)

subsection \<open>What the constructors establish\<close>

lemma LoRAWModule_init_facts:
  assumes "LoRAWModule_init name original marg rarg aarg darg mdarg = Inr base"
  shows "lora_name base = name \<and> lora_dim base = arg_or 16 rarg \<and> lora_dim base \<noteq> 0
     \<and> original_module base = Some original \<and> original_forward base = bound_forward original
     \<and> dropout base = arg_or None darg \<and> module_dropout base = arg_or None mdarg
     \<and> multiplier base = arg_or 1 marg \<and> training base"
  using assms by (auto simp: LoRAWModule_init_def Let_def split: if_splits)

lemma LoRAWLinear_init_facts:
  assumes "LoRAWLinear_init name original marg rarg aarg darg mdarg rnd = Inr self"
  shows "\<exists>c i l f ch in_f out_f.
       original = Module c (HostObject i (Layer l) f) ch \<and> attrs l = LinearAttrs in_f out_f
     \<and> lora_name self = name \<and> lora_dim self \<noteq> 0
     \<and> original_module self = Some original \<and> original_forward self = layer_forward l
     \<and> dropout self = arg_or None darg
     \<and> attrs (lora_down self) = LinearAttrs in_f (lora_dim self)
     \<and> shape (pvalue (weight (lora_down self))) = [lora_dim self, in_f]
     \<and> bias (lora_down self) = None
     \<and> attrs (lora_up self) = LinearAttrs (lora_dim self) out_f
     \<and> shape (pvalue (weight (lora_up self))) = [out_f, lora_dim self]
     \<and> data (pvalue (weight (lora_up self))) = replicate (out_f * lora_dim self) 0
     \<and> bias (lora_up self) = None"
proof -
  from assms obtain base where
    b: "LoRAWModule_init name original marg rarg aarg darg mdarg = Inr base"
    by (auto simp: LoRAWLinear_init_def split: sum.splits)
  obtain c p ch where o: "original = Module c p ch" by (cases original)
  from assms b o obtain i l f in_f out_f where
    p: "p = HostObject i (Layer l) f" and a: "attrs l = LinearAttrs in_f out_f"
    by (auto simp: LoRAWLinear_init_def split: node.splits content.splits layer_attrs.splits)
  from assms b o p a have self: "self = LoRAWModule.extend base
        \<lparr>lora_down = (nn_Linear in_f (lora_dim base) rnd)
            \<lparr>weight := kaiming_uniform rnd (weight (nn_Linear in_f (lora_dim base) rnd))\<rparr>,
         lora_up = (nn_Linear (lora_dim base) out_f rnd)
            \<lparr>weight := zeros (weight (nn_Linear (lora_dim base) out_f rnd))\<rparr>\<rparr>"
    by (simp add: LoRAWLinear_init_def Let_def)
  from LoRAWModule_init_facts[OF b] show ?thesis
    by (simp add: self o p a LoRAWModule.defs nn_Linear_def new_parameter_def kaiming_uniform_def
        zeros_def numel_def)
qed

lemma LoRAWConv1d_init_facts:
  assumes "LoRAWConv1d_init name original marg rarg aarg darg mdarg rnd = Inr self"
  shows "\<exists>c i l f ch cv.
       original = Module c (HostObject i (Layer l) f) ch \<and> attrs l = Conv1dAttrs cv
     \<and> lora_name self = name \<and> lora_dim self \<noteq> 0
     \<and> original_module self = Some original \<and> original_forward self = layer_forward l
     \<and> dropout self = arg_or None darg
     \<and> attrs (lora_down self) = Conv1dAttrs \<lparr>in_channels = in_channels cv, out_channels = lora_dim self,
           kernel_size = kernel_size cv, stride = stride cv, padding = padding cv, dilation = 1, groups = 1\<rparr>
     \<and> shape (pvalue (weight (lora_down self))) = [lora_dim self, in_channels cv, kernel_size cv]
     \<and> bias (lora_down self) = None
     \<and> attrs (lora_up self) = Conv1dAttrs \<lparr>in_channels = lora_dim self, out_channels = out_channels cv,
           kernel_size = 1, stride = 1, padding = 0, dilation = 1, groups = 1\<rparr>
     \<and> shape (pvalue (weight (lora_up self))) = [out_channels cv, lora_dim self, 1]
     \<and> data (pvalue (weight (lora_up self))) = replicate (out_channels cv * lora_dim self) 0
     \<and> bias (lora_up self) = None"
proof -
  from assms obtain base where
    b: "LoRAWModule_init name original marg rarg aarg darg mdarg = Inr base"
    by (auto simp: LoRAWConv1d_init_def split: sum.splits)
  obtain c p ch where o: "original = Module c p ch" by (cases original)
  from assms b o obtain i l f cv where
    p: "p = HostObject i (Layer l) f" and a: "attrs l = Conv1dAttrs cv"
    by (auto simp: LoRAWConv1d_init_def split: node.splits content.splits layer_attrs.splits)
  from assms b o p a have self: "self = LoRAWModule.extend base
        \<lparr>lora_down = (nn_Conv1d (in_channels cv) (lora_dim base) (kernel_size cv) (stride cv) (padding cv) rnd)
            \<lparr>weight := kaiming_uniform rnd (weight (nn_Conv1d (in_channels cv) (lora_dim base) (kernel_size cv) (stride cv) (padding cv) rnd))\<rparr>,
         lora_up = (nn_Conv1d (lora_dim base) (out_channels cv) 1 1 0 rnd)
            \<lparr>weight := zeros (weight (nn_Conv1d (lora_dim base) (out_channels cv) 1 1 0 rnd))\<rparr>\<rparr>"
    by (simp add: LoRAWConv1d_init_def Let_def)
  from LoRAWModule_init_facts[OF b] show ?thesis
    by (simp add: self o p a LoRAWModule.defs nn_Conv1d_def new_parameter_def kaiming_uniform_def
        zeros_def numel_def)
qed

subsection \<open>The adapter right after construction\<close>

lemma linear_forward_transparent:
  assumes init: "LoRAWLinear_init name original marg rarg aarg darg mdarg rnd = Inr self"
      and ok: "target_ok original" and rate: "rate_ok (arg_or None darg)"
  shows "LoRAWModule_forward (self\<lparr>training := t, multiplier := m\<rparr>) rng x = bound_forward original x"
proof -
  from LoRAWLinear_init_facts[OF init] obtain c i l f ch in_f out_f where
    o: "original = Module c (HostObject i (Layer l) f) ch" and a: "attrs l = LinearAttrs in_f out_f"
    and fw: "original_forward self = layer_forward l"
    and dr: "dropout self = arg_or None darg"
    and da: "attrs (lora_down self) = LinearAttrs in_f (lora_dim self)"
    and ds: "shape (pvalue (weight (lora_down self))) = [lora_dim self, in_f]"
    and db: "bias (lora_down self) = None"
    and ua: "attrs (lora_up self) = LinearAttrs (lora_dim self) out_f"
    and us: "shape (pvalue (weight (lora_up self))) = [out_f, lora_dim self]"
    and ud: "data (pvalue (weight (lora_up self))) = replicate (out_f * lora_dim self) 0"
    and ub: "bias (lora_up self) = None"
    by blast
  from ok o a have ws: "shape (pvalue (weight l)) = [out_f, in_f]"
    and bs: "case bias l of None \<Rightarrow> True | Some b \<Rightarrow> shape (pvalue b) = [out_f]"
    by (simp_all add: target_ok_def layer_ok_def)
  let ?self = "self\<lparr>training := t, multiplier := m\<rparr>"
  have orig: "layer_forward l x = F_linear x (pvalue (weight l)) (map_option pvalue (bias l))"
    by (simp add: layer_forward_def a)
  have down: "layer_forward (lora_down self) z = F_linear z (pvalue (weight (lora_down self))) None" for z
    by (simp add: layer_forward_def da db)
  have upf: "layer_forward (lora_up self) z = F_linear z (pvalue (weight (lora_up self))) None" for z
    by (simp add: layer_forward_def ua ub)
  have "LoRAWModule_forward ?self rng x = original_forward ?self x"
  proof (rule forward_transparent)
    show "rate_ok (dropout ?self)" using rate dr by simp
  next
    fix e assume "layer_forward (lora_down ?self) x = Inl e"
    then have e: "e = RuntimeError" and bad: "shape x = [] \<or> last (shape x) \<noteq> in_f"
      using ds by (auto simp: down F_linear_def dest: F_linear_error split: if_splits)
    from bad ws show "original_forward ?self x = Inl e"
      by (auto simp: fw orig e F_linear_def)
  next
    fix lx lx' :: tensor assume lx: "layer_forward (lora_down ?self) x = Inr lx" and s: "shape lx' = shape lx"
    from lx have F: "F_linear x (pvalue (weight (lora_down self))) None = Inr lx" by (simp add: down)
    from F_linear_shape[OF F ds] have sl: "shape lx = butlast (shape x) @ [lora_dim self]"
      and xs: "shape x \<noteq> []" "last (shape x) = in_f" by simp_all
    let ?z = "\<lparr>shape = butlast (shape x) @ [out_f],
               data = replicate (numel (butlast (shape x)) * out_f) 0\<rparr>"
    have "layer_forward (lora_up ?self) lx' = Inr ?z"
      using F_linear_zero[OF us ud, of lx'] by (simp add: upf s sl)
    moreover have "shape ?z = shape y \<and> length (data y) \<le> numel (butlast (shape x)) * out_f"
      if "original_forward ?self x = Inr y" for y
      using F_linear_shape[of x "pvalue (weight l)" "map_option pvalue (bias l)" y, OF _ ws] that
      by (simp add: fw orig)
    ultimately show "\<exists>z n. layer_forward (lora_up ?self) lx' = Inr z \<and> data z = replicate n 0
                 \<and> (\<forall>y. original_forward ?self x = Inr y \<longrightarrow> shape z = shape y \<and> length (data y) \<le> n)"
      by (intro exI[of _ ?z] exI[of _ "numel (butlast (shape x)) * out_f"]) simp
  qed
  then show ?thesis by (simp add: fw o)
qed

lemma conv_out_length_Suc: "0 < l \<Longrightarrow> conv_out_length l (Suc 0) (Suc 0) 0 (Suc 0) = l"
  by (simp add: conv_out_length_def)

lemma conv_out_length_pos: "0 < conv_out_length l k s p d"
  by (simp add: conv_out_length_def)

lemma conv_forward_transparent:
  assumes init: "LoRAWConv1d_init name original marg rarg aarg darg mdarg rnd = Inr self"
      and ok: "target_ok original" and rate: "rate_ok (arg_or None darg)"
  shows "LoRAWModule_forward (self\<lparr>training := t, multiplier := m\<rparr>) rng x = bound_forward original x"
proof -
  from LoRAWConv1d_init_facts[OF init] obtain c i l f ch cv where
    o: "original = Module c (HostObject i (Layer l) f) ch" and a: "attrs l = Conv1dAttrs cv"
    and fw: "original_forward self = layer_forward l"
    and dr: "dropout self = arg_or None darg"
    and r0: "lora_dim self \<noteq> 0"
    and da: "attrs (lora_down self) = Conv1dAttrs \<lparr>in_channels = in_channels cv, out_channels = lora_dim self,
           kernel_size = kernel_size cv, stride = stride cv, padding = padding cv, dilation = 1, groups = 1\<rparr>"
    and ds: "shape (pvalue (weight (lora_down self))) = [lora_dim self, in_channels cv, kernel_size cv]"
    and db: "bias (lora_down self) = None"
    and ua: "attrs (lora_up self) = Conv1dAttrs \<lparr>in_channels = lora_dim self, out_channels = out_channels cv,
           kernel_size = 1, stride = 1, padding = 0, dilation = 1, groups = 1\<rparr>"
    and us: "shape (pvalue (weight (lora_up self))) = [out_channels cv, lora_dim self, 1]"
    and ud: "data (pvalue (weight (lora_up self))) = replicate (out_channels cv * lora_dim self) 0"
    and ub: "bias (lora_up self) = None"
    by blast
  from ok o a have g0: "groups cv \<noteq> 0" and gi: "in_channels cv mod groups cv = 0"
    and go: "out_channels cv mod groups cv = 0"
    and ws: "shape (pvalue (weight l)) = [out_channels cv, in_channels cv div groups cv, kernel_size cv]"
    and bs: "case bias l of None \<Rightarrow> True | Some b \<Rightarrow> shape (pvalue b) = [out_channels cv]"
    and dil: "dilation cv = 1 \<or> kernel_size cv = 1"
    by (simp_all add: target_ok_def layer_ok_def undilated_def)
  from gi have gm: "in_channels cv div groups cv * groups cv = in_channels cv"
    by (simp add: dvd_div_mult_self mod_eq_0_iff_dvd)
  from dil have eff: "dilation cv * (kernel_size cv - 1) = kernel_size cv - 1" by auto
  from dil have d0: "dilation cv = 0 \<Longrightarrow> kernel_size cv = 1" by auto
  have len: "conv_out_length n (kernel_size cv) (stride cv) (padding cv) (dilation cv) =
             conv_out_length n (kernel_size cv) (stride cv) (padding cv) 1" for n
    unfolding conv_out_length_def eff by simp
  let ?self = "self\<lparr>training := t, multiplier := m\<rparr>"
  let ?bad = "(length (shape x) \<noteq> 2 \<and> length (shape x) \<noteq> 3) \<or> stride cv = 0 \<or> kernel_size cv = 0
       \<or> last (butlast (shape x)) \<noteq> in_channels cv
       \<or> last (shape x) + 2 * padding cv < kernel_size cv"
  have orig: "layer_forward l x = F_conv1d x (pvalue (weight l)) (map_option pvalue (bias l))
                 (stride cv) (padding cv) (dilation cv) (groups cv)"
    by (simp add: layer_forward_def a)
  have down: "layer_forward (lora_down self) z =
      F_conv1d z (pvalue (weight (lora_down self))) None (stride cv) (padding cv) 1 1" for z
    by (simp add: layer_forward_def da db)
  have upf: "layer_forward (lora_up self) z = F_conv1d z (pvalue (weight (lora_up self))) None 1 0 1 1" for z
    by (simp add: layer_forward_def ua ub)
  have down_bad: "?bad" if "layer_forward (lora_down self) x = Inl e" for e
    using that ds by (auto simp: down F_conv1d_def Let_def split: if_splits)
  have down_ok: "\<not> ?bad" if "layer_forward (lora_down self) x = Inr lx" for lx
    using that ds by (auto simp: down F_conv1d_def Let_def split: if_splits)
  have "LoRAWModule_forward ?self rng x = original_forward ?self x"
  proof (rule forward_transparent)
    show "rate_ok (dropout ?self)" using rate dr by simp
  next
    fix e assume e: "layer_forward (lora_down ?self) x = Inl e"
    then have "e = RuntimeError" by (auto simp: down dest: F_conv1d_error)
    moreover have "layer_forward l x = Inl RuntimeError"
    proof (cases "dilation cv = 0")
      case True
      then show ?thesis using ws by (simp add: orig F_conv1d_def Let_def)
    next
      case False
      from down_bad e have "?bad" by simp
      then show ?thesis using ws gm eff
        by (auto simp: orig F_conv1d_def Let_def)
    qed
    ultimately show "original_forward ?self x = Inl e" by (simp add: fw)
  next
    fix lx lx' :: tensor assume lx: "layer_forward (lora_down ?self) x = Inr lx" and s: "shape lx' = shape lx"
    from lx have F: "F_conv1d x (pvalue (weight (lora_down self))) None (stride cv) (padding cv) 1 1 = Inr lx"
      by (simp add: down)
    from down_ok lx have nb: "\<not> ?bad" by simp
    let ?lo = "conv_out_length (last (shape x)) (kernel_size cv) (stride cv) (padding cv) 1"
    let ?batch = "butlast (butlast (shape x))"
    from F_conv1d_shape[OF F ds] have sl: "shape lx = ?batch @ [lora_dim self, ?lo]" by simp
    from nb have lb: "length ?batch = 0 \<or> length ?batch = 1" by auto
    let ?z = "\<lparr>shape = ?batch @ [out_channels cv, ?lo],
               data = replicate (numel ?batch * (out_channels cv * ?lo)) 0\<rparr>"
    have "layer_forward (lora_up ?self) lx' = Inr ?z"
      using F_conv1d_zero[OF us ud, of lx' 1 0 1 1] lb conv_out_length_pos[of "last (shape x)" "kernel_size cv" "stride cv" "padding cv" 1]
      by (auto simp: upf s sl butlast_append conv_out_length_Suc)
    moreover have "shape ?z = shape y \<and> length (data y) \<le> numel ?batch * (out_channels cv * ?lo)"
      if "original_forward ?self x = Inr y" for y
      using F_conv1d_shape[of x "pvalue (weight l)" "map_option pvalue (bias l)" "stride cv" "padding cv"
          "dilation cv" "groups cv" y, OF _ ws] that
      by (simp add: fw orig len)
    ultimately show "\<exists>z n. layer_forward (lora_up ?self) lx' = Inr z \<and> data z = replicate n 0
                 \<and> (\<forall>y. original_forward ?self x = Inr y \<longrightarrow> shape z = shape y \<and> length (data y) \<le> n)"
      by (intro exI[of _ ?z] exI[of _ "numel ?batch * (out_channels cv * ?lo)"]) simp
  qed
  then show ?thesis by (simp add: fw o)
qed

lemma forward_original_module [simp]:
  "LoRAWModule_forward (self\<lparr>original_module := v\<rparr>) = LoRAWModule_forward self"
  by (auto simp: LoRAWModule_forward_def fun_eq_iff split: option.splits sum.splits)

text \<open>
  Apart from the dilation the construction is transparent. Over tensors of real
  numbers (the infinities and the NaN of floating-point arithmetic, for which the
  product with the zero weight is not zero, are outside the model), an adapter built
  by \<open>LoRAWLinear\<close> on a dense layer, or by \<open>LoRAWConv1d\<close> on a convolution with
  dilation 1 or kernel size 1, with a dropout rate that is a probability, returns
  right after construction what the original module returns, the same output or the
  same error: when \<open>forward\<close> is called, when the adapter is registered as a child of
  a parent and the child is called (structural injection), and when the original
  module is called after its \<open>forward\<close> has been bound to the adapter's (call
  interception).
\<close>

lemma adapter_transparent_without_dilation:
  assumes init: "LoRAWLinear_init name original marg rarg aarg darg mdarg rnd = Inr self
         \<or> LoRAWConv1d_init name original marg rarg aarg darg mdarg rnd = Inr self"
      and ok: "target_ok original" and rate: "rate_ok (arg_or None darg)"
  shows "LoRAWModule_forward self rng x = bound_forward original x
       \<and> call_child [(name, self)] (inject self parent_module) (last (split_on (CHR ''/'') name)) rng x
           = bound_forward original x
       \<and> (\<exists>original' self'. inject_forward self = Inr (original', self')
             \<and> call_module [(name, self')] original' rng x = bound_forward original x)"
proof -
  have "LoRAWModule_forward (self\<lparr>training := training self, multiplier := multiplier self\<rparr>) rng x
          = bound_forward original x"
  proof (rule disjE[OF init])
    assume "LoRAWLinear_init name original marg rarg aarg darg mdarg rnd = Inr self"
    from linear_forward_transparent[OF this ok rate] show ?thesis .
  next
    assume "LoRAWConv1d_init name original marg rarg aarg darg mdarg rnd = Inr self"
    from conv_forward_transparent[OF this ok rate] show ?thesis .
  qed
  then have fw: "LoRAWModule_forward self rng x = bound_forward original x" by simp
  have "\<exists>c i l f ch. original = Module c (HostObject i (Layer l) f) ch \<and> lora_name self = name
           \<and> original_module self = Some original"
  proof (rule disjE[OF init])
    assume "LoRAWLinear_init name original marg rarg aarg darg mdarg rnd = Inr self"
    from LoRAWLinear_init_facts[OF this] show ?thesis by blast
  next
    assume "LoRAWConv1d_init name original marg rarg aarg darg mdarg rnd = Inr self"
    from LoRAWConv1d_init_facts[OF this] show ?thesis by blast
  qed
  then obtain c i l f ch where
    o: "original = Module c (HostObject i (Layer l) f) ch" and n: "lora_name self = name"
    and om: "original_module self = Some original"
    by blast
  have child: "call_child [(name, self)] (inject self parent_module)
        (last (split_on (CHR ''/'') name)) rng x = LoRAWModule_forward self rng x"
    by (simp add: call_child_def get_child_def inject_def n AList.update_conv' run_adapter_def)
  have "inject_forward self = Inr (Module c (HostObject i (Layer l) (Some name)) ch,
                                   self\<lparr>original_module := None\<rparr>)"
    by (simp add: inject_forward_def om o n)
  moreover have "call_module [(name, self\<lparr>original_module := None\<rparr>)]
      (Module c (HostObject i (Layer l) (Some name)) ch) rng x = LoRAWModule_forward self rng x"
    by (simp add: run_adapter_def)
  ultimately show ?thesis using fw child by simp
qed

lemma adapter_transparent_example:
  "LoRAWModule_forward example_adapter some_draws \<lparr>shape = [3], data = [1, 1, 1]\<rparr>
     = Inr \<lparr>shape = [2], data = [16, 35]\<rparr>
   \<and> call_child [(''blk/to_k'', example_adapter)] (inject example_adapter attention_host) ''to_k''
        some_draws \<lparr>shape = [3], data = [1, 1, 1]\<rparr>
     = Inr \<lparr>shape = [2], data = [16, 35]\<rparr>
   \<and> LoRAWModule_forward plain_adapter some_draws \<lparr>shape = [1, 5], data = [1, 2, 3, 4, 5]\<rparr>
     = Inr \<lparr>shape = [1, 3], data = [6, 9, 12]\<rparr>"
proof -
  have i: "LoRAWLinear_init ''blk/to_k'' dense_host (Given 1) (Given 2) (Given (Some 1)) (Given None)
     (Given None) initial_values = Inr example_adapter
     \<or> LoRAWConv1d_init ''blk/to_k'' dense_host (Given 1) (Given 2) (Given (Some 1)) (Given None)
     (Given None) initial_values = Inr example_adapter"
    by (simp add: init_example)
  have ok: "target_ok dense_host"
    by (simp add: target_ok_def layer_ok_def undilated_def dense_host_def dense_layer_def)
  have r: "rate_ok (arg_or None (Given None))" by (simp add: rate_ok_def)
  have b: "bound_forward dense_host \<lparr>shape = [3], data = [1, 1, 1]\<rparr> = Inr \<lparr>shape = [2], data = [16, 35]\<rparr>"
    by (simp add: dense_host_def dense_layer_def tensor_eval_defs)
  have k: "last (split_on (CHR ''/'') ''blk/to_k'') = ''to_k''" by simp
  have i': "LoRAWLinear_init ''blk/conv'' plain_host Omitted (Given 1) Omitted Omitted Omitted
       initial_values = Inr plain_adapter
     \<or> LoRAWConv1d_init ''blk/conv'' plain_host Omitted (Given 1) Omitted Omitted Omitted
       initial_values = Inr plain_adapter"
    by (simp add: LoRAWConv1d_init_def LoRAWModule_init_def plain_host_def plain_layer_def
      plain_adapter_def dilated_adapter_def initial_values_def nn_Conv1d_def new_parameter_def
      kaiming_uniform_def zeros_def numel_def LoRAWModule.defs LoRAWAdapter.defs upt_rec fun_eq_iff
      eval_nat_numeral)
  have ok': "target_ok plain_host"
    by (simp add: target_ok_def layer_ok_def undilated_def plain_host_def plain_layer_def)
  have r': "rate_ok (arg_or None Omitted)" by (simp add: rate_ok_def)
  have b': "bound_forward plain_host \<lparr>shape = [1, 5], data = [1, 2, 3, 4, 5]\<rparr>
      = Inr \<lparr>shape = [1, 3], data = [6, 9, 12]\<rparr>"
    by (simp add: plain_host_def plain_layer_def tensor_eval_defs)
  from adapter_transparent_without_dilation [OF i ok r, of some_draws "\<lparr>shape = [3], data = [1, 1, 1]\<rparr>" attention_host]
    adapter_transparent_without_dilation [OF i' ok' r', of some_draws "\<lparr>shape = [1, 5], data = [1, 2, 3, 4, 5]\<rparr>"]
  show ?thesis by (simp only: b b' k)
qed

text \<open>
  C1. The claim is that every adapter returns, right after construction, exactly the
  output of the module it wraps. \<open>LoRAWConv1d\<close> gives the down projection the kernel
  size, the stride and the padding of the original and leaves out its dilation. The
  adapter that the constructor builds on a convolution with kernel size 3, stride 1,
  no padding and dilation 2 diverges from the original before any update: for an
  input of length 5 the original returns one element and \<open>forward\<close> returns three
  (the zero residual has length 3 and the sum is broadcast), and for an input of
  length 6 the original returns two elements and \<open>forward\<close> raises (lengths 2 and 4
  cannot be added).
\<close>

theorem LoRAWConv1d_init_omits_dilation:
  "LoRAWConv1d_init ''blk/conv'' dilated_host Omitted (Given 1) Omitted Omitted Omitted
       initial_values = Inr dilated_adapter
   \<and> bound_forward dilated_host \<lparr>shape = [1, 5], data = [1, 2, 3, 4, 5]\<rparr>
       = Inr \<lparr>shape = [1, 1], data = [9]\<rparr>
   \<and> LoRAWModule_forward dilated_adapter some_draws \<lparr>shape = [1, 5], data = [1, 2, 3, 4, 5]\<rparr>
       = Inr \<lparr>shape = [1, 3], data = [9, 9, 9]\<rparr>
   \<and> bound_forward dilated_host \<lparr>shape = [1, 6], data = [1, 2, 3, 4, 5, 6]\<rparr>
       = Inr \<lparr>shape = [1, 2], data = [9, 12]\<rparr>
   \<and> LoRAWModule_forward dilated_adapter some_draws \<lparr>shape = [1, 6], data = [1, 2, 3, 4, 5, 6]\<rparr>
       = Inl RuntimeError"
  apply (intro conjI)
  subgoal by (simp add: LoRAWConv1d_init_def LoRAWModule_init_def dilated_host_def dilated_layer_def
      dilated_adapter_def initial_values_def nn_Conv1d_def new_parameter_def kaiming_uniform_def
      zeros_def numel_def LoRAWModule.defs LoRAWAdapter.defs upt_rec fun_eq_iff eval_nat_numeral)
  subgoal by (simp add: dilated_host_def dilated_layer_def tensor_eval_defs)
  subgoal by (simp add: LoRAWModule_forward_def dilated_adapter_def some_draws_def dilated_layer_def tensor_eval_defs eval_nat_numeral)
  subgoal by (simp add: dilated_host_def dilated_layer_def tensor_eval_defs)
  subgoal by (simp add: LoRAWModule_forward_def dilated_adapter_def some_draws_def dilated_layer_def tensor_eval_defs)
  done

subsection \<open>The multiplier\<close>

lemma concat_replicate_map: "concat (replicate n (map g xs)) = map g (concat (replicate n xs))"
  by (induction n) simp_all

lemma expand_data_map: "expand_data a b (map f xs) = map f (expand_data a b xs)"
proof (induction a arbitrary: b xs)
  case Nil then show ?case by simp
next
  case (Cons a0 as)
  show ?case
  proof (cases b)
    case Nil then show ?thesis by simp
  next
    case (Cons b0 bs)
    have blocks: "map (\<lambda>i. take (numel as) (drop (i * numel as) (map f xs))) [0..<a0] =
        map (map f) (map (\<lambda>i. take (numel as) (drop (i * numel as) xs)) [0..<a0])"
      by (simp add: take_map drop_map)
    define B where "B = map (\<lambda>i. take (numel as) (drop (i * numel as) xs)) [0..<a0]"
    define G where "G = (if a0 = b0 then B else concat (replicate b0 B))"
    have g: "(if a0 = b0 then map (map f) B else concat (replicate b0 (map (map f) B))) = map (map f) G"
      by (simp add: G_def concat_replicate_map)
    have "expand_data (a0 # as) (b0 # bs) (map f xs) = concat (map (expand_data as bs) (map (map f) G))"
      by (simp only: expand_data.simps Let_def blocks B_def[symmetric] g)
    also have "\<dots> = concat (map (\<lambda>ys. map f (expand_data as bs ys)) G)"
      by (simp add: comp_def Cons.IH)
    also have "\<dots> = map f (concat (map (expand_data as bs) G))"
      by (simp add: map_concat comp_def)
    also have "\<dots> = map f (expand_data (a0 # as) (b0 # bs) xs)"
      by (simp only: expand_data.simps Let_def B_def[symmetric] G_def)
    finally show ?thesis by (simp only: Cons)
  qed
qed

lemma expand_to_scale: "expand_to (tensor_scale t k) s = map (\<lambda>v. v * k) (expand_to t s)"
  by (simp add: expand_to_def tensor_scale_def expand_data_map)

lemma broadcast_dims_length: "broadcast_dims a b = Some s \<Longrightarrow> length s = length a \<and> length b = length a"
  by (induction a b arbitrary: s rule: broadcast_dims.induct) (auto split: if_splits)

lemma broadcast_dims_absorb: "broadcast_dims a b = Some s \<Longrightarrow> broadcast_dims s a = Some s"
  by (induction a b arbitrary: s rule: broadcast_dims.induct) (auto split: if_splits)

lemma length_pad_shape: "length (pad_shape n s) = max n (length s)"
  by (simp add: pad_shape_def)

lemma broadcast_shapes_absorb:
  assumes "broadcast_shapes a b = Some s"
  shows "broadcast_shapes s a = Some s"
proof -
  let ?n = "max (length a) (length b)"
  from assms have d: "broadcast_dims (pad_shape ?n a) (pad_shape ?n b) = Some s"
    by (simp add: broadcast_shapes_def Let_def)
  from broadcast_dims_length[OF d] have l: "length s = ?n" by (simp add: length_pad_shape)
  then have "max (length s) (length a) = ?n" by simp
  moreover have "pad_shape ?n s = s" using l by (simp add: pad_shape_def)
  ultimately show ?thesis using broadcast_dims_absorb[OF d]
    by (simp add: broadcast_shapes_def Let_def)
qed

lemma map2_sub_add: "map2 (-) (map2 (+) xs ys) xs = take (length xs) (ys :: real list)"
proof (induction xs arbitrary: ys)
  case Nil then show ?case by simp
next
  case (Cons x xs) then show ?case by (cases ys) simp_all
qed

lemma tensor_sub_add:
  assumes "tensor_add base r = Inr y"
  shows "\<exists>s. broadcast_shapes (shape base) (shape r) = Some s \<and>
     tensor_sub y base = Inr \<lparr>shape = s, data = take (length (expand_to base s)) (expand_to r s)\<rparr>"
proof -
  from assms obtain s where s: "broadcast_shapes (shape base) (shape r) = Some s"
    and y: "y = \<lparr>shape = s, data = map2 (+) (expand_to base s) (expand_to r s)\<rparr>"
    by (auto simp: tensor_add_def broadcast_op_def split: option.splits)
  have "expand_to y s = data y" by (simp add: expand_to_def y)
  then show ?thesis using broadcast_shapes_absorb[OF s] s
    by (simp add: tensor_sub_def broadcast_op_def y map2_sub_add)
qed

lemma map_of_set_multiplier:
  "map_of (lora_modules (set_multiplier network m)) name =
     map_option (\<lambda>a. a\<lparr>multiplier := m\<rparr>) (map_of (lora_modules network) name)"
  by (simp add: set_multiplier_def map_of_map[unfolded comp_def, THEN fun_cong])

lemma eval_forward:
  assumes "\<not> training a"
  shows "LoRAWModule_forward (a\<lparr>multiplier := m\<rparr>) rng x =
     (case layer_forward (lora_down a) x of Inl e \<Rightarrow> Inl e
      | Inr lx \<Rightarrow> (case layer_forward (lora_up a) lx of Inl e \<Rightarrow> Inl e
         | Inr z \<Rightarrow> (case original_forward a x of Inl e \<Rightarrow> Inl e
            | Inr base \<Rightarrow> tensor_add base (tensor_scale (tensor_scale z (scale a)) m))))"
  using assms
  by (auto simp: LoRAWModule_forward_def split: option.splits sum.splits)

text \<open>
  C5. For an adapter of the network in evaluation mode, an input, a multiplier \<open>m\<close>
  and a nonzero multiplier \<open>m'\<close>: when the forward call after \<open>set_multiplier(m')\<close>
  returns \<open>y'\<close>, the original module returns some \<open>base\<close> whatever the multiplier
  is, the forward call after \<open>set_multiplier(m)\<close> returns some \<open>y\<close>, and
  \<open>y - base = (m / m') (y' - base)\<close>. The adapter is looked up in the network at the
  time of the call, so nothing is injected again.
\<close>

theorem set_multiplier_scales_residual:
  assumes a: "map_of (lora_modules network) name = Some a" and ev: "\<not> training a"
      and m': "m' \<noteq> 0"
      and y': "run_adapter (lora_modules (set_multiplier network m')) name rng x = Inr y'"
  shows "\<exists>base y d d'. original_forward a x = Inr base
        \<and> run_adapter (lora_modules (set_multiplier network m)) name rng x = Inr y
        \<and> tensor_sub y base = Inr d \<and> tensor_sub y' base = Inr d'
        \<and> d = tensor_scale d' (m / m')"
proof -
  have run: "run_adapter (lora_modules (set_multiplier network k)) name rng x =
      LoRAWModule_forward (a\<lparr>multiplier := k\<rparr>) rng x" for k
    by (simp add: run_adapter_def map_of_set_multiplier a)
  from y' obtain lx z base where
    lx: "layer_forward (lora_down a) x = Inr lx" and z: "layer_forward (lora_up a) lx = Inr z"
    and base: "original_forward a x = Inr base"
    and add': "tensor_add base (tensor_scale (tensor_scale z (scale a)) m') = Inr y'"
    by (auto simp: run eval_forward[OF ev] split: sum.splits)
  let ?c = "tensor_scale z (scale a)"
  from tensor_sub_add[OF add'] obtain s where
    s: "broadcast_shapes (shape base) (shape ?c) = Some s"
    and d': "tensor_sub y' base =
        Inr \<lparr>shape = s, data = take (length (expand_to base s)) (expand_to (tensor_scale ?c m') s)\<rparr>"
    by (auto simp: tensor_scale_def)
  let ?y = "\<lparr>shape = s, data = map2 (+) (expand_to base s) (expand_to (tensor_scale ?c m) s)\<rparr>"
  have add: "tensor_add base (tensor_scale ?c m) = Inr ?y"
    using s by (simp add: tensor_add_def broadcast_op_def tensor_scale_def)
  from tensor_sub_add[OF add] s have d:
    "tensor_sub ?y base =
        Inr \<lparr>shape = s, data = take (length (expand_to base s)) (expand_to (tensor_scale ?c m) s)\<rparr>"
    by (auto simp: tensor_scale_def)
  have "run_adapter (lora_modules (set_multiplier network m)) name rng x = Inr ?y"
    by (simp add: run eval_forward[OF ev] lx z base add)
  moreover have "\<lparr>shape = s, data = take (length (expand_to base s)) (expand_to (tensor_scale ?c m) s)\<rparr>
      = tensor_scale \<lparr>shape = s, data = take (length (expand_to base s)) (expand_to (tensor_scale ?c m') s)\<rparr> (m / m')"
  proof -
    have "map (\<lambda>v. v * m) xs = map (\<lambda>v. v * (m / m')) (map (\<lambda>v. v * m') xs)" for xs :: "real list"
      using m' by simp
    then show ?thesis
      unfolding expand_to_scale[of ?c] by (simp add: tensor_scale_def take_map)
  qed
  ultimately show ?thesis using base d d' by blast
qed

theorem set_multiplier_scales_residual_witness:
  "\<exists>base y d d'.
      original_forward tuned_adapter \<lparr>shape = [3], data = [1, 1, 1]\<rparr> = Inr base
    \<and> run_adapter (lora_modules (set_multiplier tuned_network 4)) ''blk/to_k'' some_draws
         \<lparr>shape = [3], data = [1, 1, 1]\<rparr> = Inr y
    \<and> tensor_sub y base = Inr d
    \<and> tensor_sub \<lparr>shape = [2], data = [22, 50]\<rparr> base = Inr d'
    \<and> d = tensor_scale d' (4 / 2)"
proof -
  have a: "map_of (lora_modules tuned_network) ''blk/to_k'' = Some tuned_adapter"
    by (simp add: tuned_network_def)
  have e: "\<not> training tuned_adapter" by (simp add: tuned_adapter_def)
  have m: "(2::real) \<noteq> 0" by simp
  have y: "run_adapter (lora_modules (set_multiplier tuned_network 2)) ''blk/to_k'' some_draws
         \<lparr>shape = [3], data = [1, 1, 1]\<rparr> = Inr \<lparr>shape = [2], data = [22, 50]\<rparr>"
    by (simp add: run_adapter_def set_multiplier_def tuned_network_def tuned_adapter_def
        LoRAWModule_forward_def host_example_defs tensor_eval_defs)
  from set_multiplier_scales_residual [OF a e m y, of 4] show ?thesis .
qed

text \<open>The values of the example: the deviation doubles from multiplier 2 to 4.\<close>

lemma set_multiplier_example:
  "run_adapter (lora_modules (set_multiplier tuned_network 4)) ''blk/to_k'' some_draws
         \<lparr>shape = [3], data = [1, 1, 1]\<rparr> = Inr \<lparr>shape = [2], data = [28, 65]\<rparr>
   \<and> tensor_sub \<lparr>shape = [2], data = [28, 65]\<rparr> \<lparr>shape = [2], data = [16, 35]\<rparr> = Inr \<lparr>shape = [2], data = [12, 30]\<rparr>
   \<and> tensor_sub \<lparr>shape = [2], data = [22, 50]\<rparr> \<lparr>shape = [2], data = [16, 35]\<rparr> = Inr \<lparr>shape = [2], data = [6, 15]\<rparr>"
  by (simp add: run_adapter_def set_multiplier_def tuned_network_def tuned_adapter_def
        LoRAWModule_forward_def host_example_defs tensor_eval_defs)

section \<open>Properties of the wrapper\<close>

subsection \<open>The order of the life cycle\<close>

text \<open>
  C9. Activating a wrapper that is active fails with an assertion, and so does
  preparing for training a wrapper that is not active; in both cases the wrapper
  (and the trainer) are left exactly as they were, the flags \<open>is_active\<close> and
  \<open>is_trainable\<close> included.
\<close>

theorem lifecycle_order_errors:
  "(is_active self \<longrightarrow> activate self = (Inl AssertionError, self))
   \<and> (\<not> is_active self \<longrightarrow>
        prepare_for_training EMA_MODEL trim_ema self trainer lr_arg = (Inl AssertionError, self, trainer))"
  by (simp add: activate_def prepare_for_training_def)

theorem lifecycle_order_errors_witness:
  "activate (example_wrapper\<lparr>is_active := True\<rparr>) =
     (Inl AssertionError, example_wrapper\<lparr>is_active := True\<rparr>)
   \<and> prepare_for_training [] Inr example_wrapper example_trainer Omitted =
     (Inl AssertionError, example_wrapper, example_trainer)"
  using lifecycle_order_errors [of "example_wrapper\<lparr>is_active := True\<rparr>"]
    lifecycle_order_errors [of example_wrapper "[]" Inr example_trainer Omitted]
  by (simp add: example_wrapper_def)

text \<open>
  The calls that succeed, on the example: activation registers the adapter in the
  attention block and a second activation fails; the preparation that follows makes
  the projections trainable and takes the device and the learning rate of the
  trainer; call interception binds the \<open>forward\<close> of the dense layer.
\<close>

lemma activate_example:
  "activate example_wrapper =
     (Inr (),
      example_wrapper
        \<lparr>target_model :=
           Module ''Model'' (HostObject 0 (Opaque [] (\<lambda>x. Inr x)) None)
             [(''blk'', Module ''Attention'' (HostObject 1 (Opaque [] (\<lambda>x. Inr x)) None)
                 [(''to_k'', Module ''LoRAWLinear'' (AdapterObject ''blk/to_k'') [])])],
         net := (net example_wrapper)\<lparr>active := True\<rparr>,
         is_active := True\<rparr>)"
  by (simp add: activate_def LoRAWNetwork_activate_def host_example_defs inject_def adapter_class_def)

lemma activate_twice_example:
  "fst (activate (snd (activate example_wrapper))) = Inl AssertionError"
  by (simp add: activate_example) (simp add: activate_def)

lemma prepare_example:
  "(case prepare_for_training [] Inr (snd (activate example_wrapper)) example_trainer Omitted of
      (r, w, t) \<Rightarrow> (r, is_trainable w, lr w, net_device (net w), configure_optimizers t,
                    map (\<lambda>(k, q). (k, requires_grad q))
                      (named_parameters (residual_modules (lora_modules (net w))))))
   = (Inr (), True, Some (1 / 1000), ''cuda'', ResidualOptimizers,
      [(''blk/to_k/lora_down.weight'', True), (''blk/to_k/lora_up.weight'', True)])"
  by (simp add: activate_example)
     (simp add: prepare_for_training_def Let_def host_example_defs state_dict_def detach_def
        residual_modules_def assign_all_def adapter_layers_def named_parameters_def
        set_requires_grad_residual_def set_requires_grad_original_def set_requires_grad_layer_def
        dense_layer_def)

lemma activate_forward_example:
  "LoRAWNetwork_activate_forward (net example_wrapper) model_host =
     (Inr (),
      (net example_wrapper)
        \<lparr>active := True,
         lora_modules := [(''blk/to_k'', example_adapter\<lparr>original_module := None\<rparr>)]\<rparr>,
      Module ''Model'' (HostObject 0 (Opaque [] (\<lambda>x. Inr x)) None)
        [(''blk'', Module ''Attention'' (HostObject 1 (Opaque [] (\<lambda>x. Inr x)) None)
            [(''to_k'', Module ''Linear'' (HostObject 2 (Layer dense_layer) (Some ''blk/to_k'')) [])])])"
  by (simp add: LoRAWNetwork_activate_forward_def inject_forward_def host_example_defs)

subsection \<open>The keys of the adapter parameters\<close>

lemmas weights_example_defs =
  tuned_adapter_def tuned_network_def ones_2_3_def ones_3_3_def ones_1_3_def mismatched_file_def
  broadcast_file_def partial_file_def merged_adapter_def merged_wrapper_def

lemmas weights_eval_defs =
  merge_weights_def load_weights_def load_state_dict_def state_dict_def detach_def
  residual_modules_def assign_all_def adapter_layers_def named_parameters_def update_parameter_def
  update_layer_parameter_def copy_values_def

lemma update_fresh: "k \<notin> fst ` set d \<Longrightarrow> AList.update k v d = d @ [(k, v)]"
  by (induction d) auto

lemma assign_all_distinct:
  "distinct (map fst (d @ xs)) \<Longrightarrow> assign_all xs d = d @ xs"
proof (induction xs arbitrary: d)
  case Nil then show ?case by (simp add: assign_all_def)
next
  case (Cons x xs)
  obtain k v where x: "x = (k, v)" by (cases x)
  from Cons.prems have "k \<notin> fst ` set d" by (auto simp: x)
  then have u: "AList.update k v d = d @ [(k, v)]" by (rule update_fresh)
  have "assign_all (x # xs) d = assign_all xs (d @ [(k, v)])"
    by (simp add: assign_all_def x u)
  also have "\<dots> = (d @ [(k, v)]) @ xs"
    by (rule Cons.IH) (use Cons.prems in \<open>simp add: x\<close>)
  finally show ?case by (simp add: x)
qed

lemma suffix_down_up: "n @ ''/lora_down'' \<noteq> n' @ ''/lora_up''"
proof
  assume "n @ ''/lora_down'' = n' @ ''/lora_up''"
  then have "last (n @ ''/lora_down'') = last (n' @ ''/lora_up'')" by simp
  then show False by simp
qed

lemma suffix_weight_bias: "k @ ''.weight'' \<noteq> k' @ ''.bias''"
proof
  assume "k @ ''.weight'' = k' @ ''.bias''"
  then have "last (k @ ''.weight'') = last (k' @ ''.bias'')" by simp
  then show False by simp
qed

lemma adapter_layers_keys_disjoint:
  "fst a \<noteq> fst b \<Longrightarrow> fst ` set (adapter_layers a) \<inter> fst ` set (adapter_layers b) = {}"
  using suffix_down_up suffix_down_up[symmetric]
  by (cases a; cases b) (auto simp: adapter_layers_def)

lemma distinct_adapter_layers:
  "distinct (map fst ms) \<Longrightarrow> distinct (map fst (concat (map adapter_layers ms)))"
proof (induction ms)
  case Nil then show ?case by simp
next
  case (Cons a ms)
  have self: "distinct (map fst (adapter_layers a))"
    using suffix_down_up by (cases a) (auto simp: adapter_layers_def)
  have other: "fst ` set (adapter_layers a) \<inter> fst ` set (concat (map adapter_layers ms)) = {}"
  proof -
    have "fst ` set (adapter_layers a) \<inter> fst ` set (adapter_layers b) = {}" if "b \<in> set ms" for b
      using that Cons.prems by (intro adapter_layers_keys_disjoint) auto
    then show ?thesis by (auto simp: image_UN)
  qed
  from Cons self other show ?case by (auto simp: image_Un)
qed

lemma residual_modules_distinct:
  "distinct (map fst ms) \<Longrightarrow> residual_modules ms = concat (map adapter_layers ms)"
  using assign_all_distinct[of "[]" "concat (map adapter_layers ms)"] distinct_adapter_layers[of ms]
  by (simp add: residual_modules_def)

lemma key_suffix_distinct:
  "n @ ''/lora_down.weight'' \<noteq> n' @ ''/lora_down.bias''"
  "n @ ''/lora_down.weight'' \<noteq> n' @ ''/lora_up.weight''"
  "n @ ''/lora_down.weight'' \<noteq> n' @ ''/lora_up.bias''"
  "n @ ''/lora_down.bias'' \<noteq> n' @ ''/lora_down.weight''"
  "n @ ''/lora_down.bias'' \<noteq> n' @ ''/lora_up.weight''"
  "n @ ''/lora_down.bias'' \<noteq> n' @ ''/lora_up.bias''"
  "n @ ''/lora_up.weight'' \<noteq> n' @ ''/lora_down.weight''"
  "n @ ''/lora_up.weight'' \<noteq> n' @ ''/lora_down.bias''"
  "n @ ''/lora_up.weight'' \<noteq> n' @ ''/lora_up.bias''"
  "n @ ''/lora_up.bias'' \<noteq> n' @ ''/lora_down.weight''"
  "n @ ''/lora_up.bias'' \<noteq> n' @ ''/lora_down.bias''"
  "n @ ''/lora_up.bias'' \<noteq> n' @ ''/lora_up.weight''"
  by (auto dest: arg_cong[where f=rev])

lemma named_parameters_append:
  "named_parameters (xs @ ys) = named_parameters xs @ named_parameters ys"
  by (simp add: named_parameters_def)

lemma named_parameters_concat:
  "named_parameters (concat xss) = concat (map named_parameters xss)"
  by (induction xss) (simp_all add: named_parameters_append, simp add: named_parameters_def)

lemma update_parameter_names [simp]: "map fst (update_parameter k f ms) = map fst ms"
  by (simp add: update_parameter_def comp_def case_prod_beta)

lemma lens_adapter:
  "named_parameters (adapter_layers (n,
       a\<lparr>lora_down := update_layer_parameter (n @ ''/lora_down'') k f (lora_down a),
         lora_up := update_layer_parameter (n @ ''/lora_up'') k f (lora_up a)\<rparr>)) =
   map (\<lambda>(k', q). (k', if k' = k then f q else q)) (named_parameters (adapter_layers (n, a)))"
  by (cases "bias (lora_down a)"; cases "bias (lora_up a)")
     (auto simp: named_parameters_def adapter_layers_def update_layer_parameter_def key_suffix_distinct)

lemma lens_parameters:
  assumes "distinct (map fst ms)"
  shows "named_parameters (residual_modules (update_parameter k f ms)) =
     map (\<lambda>(k', q). (k', if k' = k then f q else q)) (named_parameters (residual_modules ms))"
proof -
  have "named_parameters (concat (map adapter_layers (update_parameter k f ms))) =
      map (\<lambda>(k', q). (k', if k' = k then f q else q)) (named_parameters (concat (map adapter_layers ms)))"
  proof (induction ms)
    case Nil show ?case by (simp add: update_parameter_def named_parameters_def)
  next
    case (Cons a ms)
    obtain n b where a: "a = (n, b)" by (cases a)
    have "update_parameter k f (a # ms) =
       (n, b\<lparr>lora_down := update_layer_parameter (n @ ''/lora_down'') k f (lora_down b),
              lora_up := update_layer_parameter (n @ ''/lora_up'') k f (lora_up b)\<rparr>)
       # update_parameter k f ms"
      by (simp add: update_parameter_def a)
    then show ?case using Cons.IH
      by (simp add: named_parameters_append lens_adapter a)
  qed
  then show ?thesis using assms by (simp add: residual_modules_distinct)
qed

lemma adapter_parameter_keys:
  "fst ` set (named_parameters (adapter_layers (n, a))) \<subseteq>
     {n @ ''/lora_down.weight'', n @ ''/lora_down.bias'', n @ ''/lora_up.weight'', n @ ''/lora_up.bias''}"
  by (cases "bias (lora_down a)"; cases "bias (lora_up a)")
     (auto simp: named_parameters_def adapter_layers_def)

lemma distinct_adapter_parameters:
  "distinct (map fst (named_parameters (adapter_layers (n, a))))"
  by (cases "bias (lora_down a)"; cases "bias (lora_up a)")
     (auto simp: named_parameters_def adapter_layers_def key_suffix_distinct)

lemma key_suffix_inject:
  assumes "x \<in> {n @ ''/lora_down.weight'', n @ ''/lora_down.bias'', n @ ''/lora_up.weight'', n @ ''/lora_up.bias''}"
      and "x \<in> {n' @ ''/lora_down.weight'', n' @ ''/lora_down.bias'', n' @ ''/lora_up.weight'', n' @ ''/lora_up.bias''}"
  shows "n = n'"
  using assms by (auto simp: key_suffix_distinct)

lemma distinct_parameters:
  assumes "distinct (map fst ms)"
  shows "distinct (map fst (named_parameters (residual_modules ms)))"
proof -
  have "distinct (map fst (named_parameters (concat (map adapter_layers ms))))"
    using assms
  proof (induction ms)
    case Nil show ?case by (simp add: named_parameters_def)
  next
    case (Cons a ms)
    obtain n b where a: "a = (n, b)" by (cases a)
    have "fst ` set (named_parameters (adapter_layers (n, b))) \<inter>
          fst ` set (named_parameters (concat (map adapter_layers ms))) = {}"
    proof (rule ccontr)
      assume "\<not> ?thesis"
      then obtain x where x1: "x \<in> fst ` set (named_parameters (adapter_layers (n, b)))"
        and x2: "x \<in> fst ` set (named_parameters (concat (map adapter_layers ms)))" by blast
      from x2 obtain c where c: "c \<in> set ms" and xc: "x \<in> fst ` set (named_parameters (adapter_layers c))"
        by (auto simp: named_parameters_concat)
      obtain n' b' where c': "c = (n', b')" by (cases c)
      from key_suffix_inject[of x n n'] x1 xc adapter_parameter_keys[of n b] adapter_parameter_keys[of n' b']
      have "n = n'" unfolding c' by blast
      with c c' Cons.prems show False by (force simp: a)
    qed
    with Cons distinct_adapter_parameters[of n b] show ?case
      by (auto simp: a named_parameters_append)
  qed
  then show ?thesis using assms by (simp add: residual_modules_distinct)
qed

lemma example_parameters:
  "named_parameters (residual_modules (lora_modules (net example_wrapper))) =
     [(''blk/to_k/lora_down.weight'',
       \<lparr>pvalue = \<lparr>shape = [2, 3], data = [1, 2, 3, 4, 5, 6]\<rparr>, pdtype = Float32, requires_grad = True\<rparr>),
      (''blk/to_k/lora_up.weight'',
       \<lparr>pvalue = \<lparr>shape = [2, 2], data = [0, 0, 0, 0]\<rparr>, pdtype = Float32, requires_grad = True\<rparr>)]"
  by (simp add: weights_eval_defs host_example_defs)

subsection \<open>Saving\<close>

text \<open>
  C10. The argument \<open>dtype\<close> of \<open>save_weights\<close> has no effect: for any two values of it,
  given or left out, the file system after the call is the same, and the file holds
  the state dictionary of \<open>residual_modules\<close>, every tensor with the values and the
  element type of the parameter in memory.
\<close>

theorem save_weights_ignores_dtype:
  "save_weights self path dtype1 fs = save_weights self path dtype2 fs
   \<and> save_weights self path dtype1 fs path =
       Some (map (\<lambda>(key, q). (key, \<lparr>saved_value = pvalue q, saved_dtype = pdtype q\<rparr>))
               (named_parameters (residual_modules (lora_modules (net self)))))"
  by (simp add: save_weights_def state_dict_def detach_def)

theorem save_weights_ignores_dtype_witness:
  "save_weights example_wrapper ''lora.pt'' (Given Float16) Map.empty ''lora.pt'' =
     Some [(''blk/to_k/lora_down.weight'',
            \<lparr>saved_value = \<lparr>shape = [2, 3], data = [1, 2, 3, 4, 5, 6]\<rparr>, saved_dtype = Float32\<rparr>),
           (''blk/to_k/lora_up.weight'',
            \<lparr>saved_value = \<lparr>shape = [2, 2], data = [0, 0, 0, 0]\<rparr>, saved_dtype = Float32\<rparr>)]
   \<and> save_weights example_wrapper ''lora.pt'' (Given Float16) Map.empty =
     save_weights example_wrapper ''lora.pt'' (Given Float64) Map.empty"
  using save_weights_ignores_dtype [of example_wrapper "''lora.pt''" "Given Float16" Map.empty "Given Float64"]
  by (simp add: save_weights_def state_dict_def detach_def example_parameters)

subsection \<open>Loading\<close>

lemma load_loop_names [simp]: "map fst (load_loop weights rest ms) = map fst ms"
  by (induction weights rest ms rule: load_loop.induct) (auto split: option.splits)

lemma load_loop_parameters:
  assumes "distinct (map fst ms)" "distinct (map fst rest)"
  shows "named_parameters (residual_modules (load_loop weights rest ms)) =
     map (\<lambda>(k', q'). (k',
            case map_of rest k' of
              None \<Rightarrow> q'
            | Some q \<Rightarrow>
                (case map_of weights k' of
                   None \<Rightarrow> q'
                 | Some t \<Rightarrow> if shape (saved_value t) = shape (pvalue q)
                             then copy_values (saved_value t) q' else q')))
       (named_parameters (residual_modules ms))"
  using assms
proof (induction rest arbitrary: ms)
  case Nil
  then show ?case by simp
next
  case (Cons r rest)
  obtain k q where r: "r = (k, q)" by (cases r)
  from Cons.prems have dr: "distinct (map fst rest)" and kr: "map_of rest k = None"
    by (auto simp: r map_of_eq_None_iff)
  show ?case
  proof (cases "\<exists>t. map_of weights k = Some t \<and> shape (saved_value t) = shape (pvalue q)")
    case False
    then have "load_loop weights (r # rest) ms = load_loop weights rest ms"
      by (auto simp: r split: option.splits)
    moreover from False have "(case map_of weights k' of None \<Rightarrow> q'
           | Some t \<Rightarrow> if shape (saved_value t) = shape (pvalue q) then copy_values (saved_value t) q' else q') = q'"
      if "k' = k" for k' q'
      using that by (auto split: option.splits)
    ultimately show ?thesis
      using Cons.IH[OF Cons.prems(1) dr] kr by (auto simp: r)
  next
    case True
    then obtain t where t: "map_of weights k = Some t" "shape (saved_value t) = shape (pvalue q)" by blast
    let ?ms = "update_parameter k (copy_values (saved_value t)) ms"
    have l: "load_loop weights (r # rest) ms = load_loop weights rest ?ms"
      by (simp add: r t)
    have d: "distinct (map fst ?ms)" using Cons.prems(1) by simp
    show ?thesis
      unfolding l Cons.IH[OF d dr] lens_parameters[OF Cons.prems(1)]
      using kr t by (auto simp: r)
  qed
qed

text \<open>The keys that \<open>load_state_dict\<close> reports as unexpected.\<close>

lemma head_name_dot: "CHR ''.'' \<notin> set c \<Longrightarrow> head_name (c @ CHR ''.'' # r) = c"
  by (induction c) (auto simp: head_name_def)

lemma head_name_cases:
  assumes "CHR ''.'' \<in> set k"
  shows "\<exists>r. k = head_name k @ CHR ''.'' # r"
proof -
  let ?P = "\<lambda>c. c \<noteq> CHR ''.''"
  have k: "k = takeWhile ?P k @ dropWhile ?P k" by simp
  from assms have ne: "dropWhile ?P k \<noteq> []" by (simp add: dropWhile_eq_Nil_conv) 
  then obtain x r where xr: "dropWhile ?P k = x # r" by (cases "dropWhile ?P k") auto
  from hd_dropWhile[OF ne] xr have "x = CHR ''.''" by simp
  with k xr show ?thesis unfolding head_name_def by metis
qed

lemma dot_split_unique:
  assumes "CHR ''.'' \<notin> set c" "CHR ''.'' \<notin> set c'" "c @ CHR ''.'' # r = c' @ CHR ''.'' # r'"
  shows "c = c' \<and> r = r'"
proof -
  from assms(3) have "head_name (c @ CHR ''.'' # r) = head_name (c' @ CHR ''.'' # r')" by simp
  then have "c = c'" using assms(1,2) by (simp add: head_name_dot)
  with assms(3) show ?thesis by simp
qed

lemma starts_with_iff: "starts_with k p \<longleftrightarrow> (\<exists>r. k = p @ r)"
proof
  assume "starts_with k p"
  then have "k = p @ drop (length p) k"
    unfolding starts_with_def by (metis append_take_drop_id)
  then show "\<exists>r. k = p @ r" ..
next
  assume "\<exists>r. k = p @ r" then show "starts_with k p" by (auto simp: starts_with_def)
qed

lemma local_names_dot: "pn \<in> set (local_names l) \<Longrightarrow> CHR ''.'' \<notin> set pn \<and> pn \<noteq> ''_extra_state''"
  by (auto simp: local_names_def split: option.splits)

lemma own_iff:
  "k \<in> fst ` set (named_parameters L) \<longleftrightarrow>
     (\<exists>c l pn. (c, l) \<in> set L \<and> pn \<in> set (local_names l) \<and> k = c @ CHR ''.'' # pn)"
proof -
  have one: "fst ` set ((c @ ''.weight'', weight l) #
                (case bias l of None \<Rightarrow> [] | Some b \<Rightarrow> [(c @ ''.bias'', b)])) =
             (\<lambda>pn. c @ CHR ''.'' # pn) ` set (local_names l)" for c l
    by (cases "bias l") (auto simp: local_names_def)
  have "fst ` set (named_parameters L) =
          (\<Union>(c, l) \<in> set L. (\<lambda>pn. c @ CHR ''.'' # pn) ` set (local_names l))"
    unfolding named_parameters_def set_concat set_map image_UN image_image
  proof (rule SUP_cong[OF refl])
    fix x assume "x \<in> set L"
    obtain c l where x: "x = (c, l)" by (cases x)
    show "fst ` set (case x of (key, l) \<Rightarrow> (key @ ''.weight'', weight l) #
                (case bias l of None \<Rightarrow> [] | Some b \<Rightarrow> [(key @ ''.bias'', b)])) =
          (case x of (c, l) \<Rightarrow> (\<lambda>pn. c @ CHR ''.'' # pn) ` set (local_names l))"
      unfolding x prod.case by (rule one)
  qed
  then show ?thesis by auto
qed

lemma set_module_unexpected:
  "set (module_unexpected p ms ls keys) =
     {k \<in> set keys. starts_with k p \<and>
        (k = p @ ''_extra_state'' \<or>
         (if CHR ''.'' \<in> set (drop (length p) k) then head_name (drop (length p) k) \<notin> set ms
          else drop (length p) k \<notin> set ls))}"
  by (auto simp: module_unexpected_def Let_def starts_with_def)

lemma unexpected_characterisation:
  assumes d: "distinct (map fst L)"
      and nd: "\<forall>c \<in> fst ` set L. CHR ''.'' \<notin> set c"
  shows "set (module_unexpected [] (map fst L) [] keys
              @ concat (map (\<lambda>(c, l). module_unexpected (c @ ''.'') [] (local_names l) keys) L))
         = {k \<in> set keys. k \<notin> fst ` set (named_parameters L)}"
    (is "?U = ?V")
proof (rule set_eqI)
  fix k
  have same: "l = l'" if "(c, l) \<in> set L" "(c, l') \<in> set L" for c l l'
    using d that by (meson eq_key_imp_eq_value)
  show "k \<in> ?U \<longleftrightarrow> k \<in> ?V"
  proof
    assume "k \<in> ?U"
    then consider (top) "k \<in> set (module_unexpected [] (map fst L) [] keys)"
      | (child) c l where "(c, l) \<in> set L" "k \<in> set (module_unexpected (c @ ''.'') [] (local_names l) keys)"
      by auto
    then show "k \<in> ?V"
    proof cases
      case top
      then have kk: "k \<in> set keys"
        and t: "k = ''_extra_state'' \<or> (if CHR ''.'' \<in> set k then head_name k \<notin> fst ` set L else True)"
        by (auto simp: set_module_unexpected split: if_splits)
      have "k \<notin> fst ` set (named_parameters L)"
      proof
        assume "k \<in> fst ` set (named_parameters L)"
        then obtain c l pn where o: "(c, l) \<in> set L" "pn \<in> set (local_names l)" "k = c @ CHR ''.'' # pn"
          unfolding own_iff by blast
        from o(1) nd have cd: "CHR ''.'' \<notin> set c" by force
        from o(3) have "CHR ''.'' \<in> set k" by simp
        moreover have "head_name k = c" unfolding o(3) by (rule head_name_dot[OF cd])
        moreover have "k \<noteq> ''_extra_state''" using \<open>CHR ''.'' \<in> set k\<close> by auto
        ultimately show False using t o(1) by force
      qed
      with kk show ?thesis by simp
    next
      case child
      from child(1) nd have cd: "CHR ''.'' \<notin> set c" by force
      from child(2) obtain r where kk: "k \<in> set keys" and kr: "k = c @ CHR ''.'' # r"
        and t: "r = ''_extra_state'' \<or> CHR ''.'' \<in> set r \<or> r \<notin> set (local_names l)"
        by (auto simp: set_module_unexpected starts_with_iff split: if_splits)
      have "k \<notin> fst ` set (named_parameters L)"
      proof
        assume "k \<in> fst ` set (named_parameters L)"
        then obtain c' l' pn where o: "(c', l') \<in> set L" "pn \<in> set (local_names l')" "k = c' @ CHR ''.'' # pn"
          unfolding own_iff by blast
        from o(1) nd have cd': "CHR ''.'' \<notin> set c'" by force
        from kr o(3) have "c @ CHR ''.'' # r = c' @ CHR ''.'' # pn" by simp
        from dot_split_unique[OF cd cd' this] have e: "c = c'" "r = pn" by auto
        with same[OF child(1)] o(1) have "l = l'" by simp
        with t e o(2) local_names_dot[OF o(2)] show False by auto
      qed
      with kk show ?thesis by simp
    qed
  next
    assume "k \<in> ?V"
    then have kk: "k \<in> set keys" and no: "k \<notin> fst ` set (named_parameters L)" by auto
    show "k \<in> ?U"
    proof (cases "CHR ''.'' \<in> set k \<and> head_name k \<in> fst ` set L")
      case False
      then have "k \<in> set (module_unexpected [] (map fst L) [] keys)"
        using kk by (auto simp: set_module_unexpected starts_with_def)
      then show ?thesis by simp
    next
      case True
      then obtain l where cl: "(head_name k, l) \<in> set L" by auto
      from True head_name_cases obtain r where kr: "k = head_name k @ CHR ''.'' # r" by blast
      have "r \<notin> set (local_names l)"
      proof
        assume "r \<in> set (local_names l)"
        with cl kr have "k \<in> fst ` set (named_parameters L)" unfolding own_iff by blast
        with no show False ..
      qed
      moreover have "drop (length (head_name k @ ''.'')) k = r"
        by (subst kr) simp
      moreover have "starts_with k (head_name k @ ''.'')"
        unfolding starts_with_iff using kr by auto
      ultimately have "k \<in> set (module_unexpected (head_name k @ ''.'') [] (local_names l) keys)"
        using kk unfolding set_module_unexpected by auto
      with cl show ?thesis by force
    qed
  qed
qed

lemma residual_names_dot:
  assumes "\<forall>n \<in> fst ` set ms. CHR ''.'' \<notin> set n"
  shows "\<forall>c \<in> fst ` set (concat (map adapter_layers ms)). CHR ''.'' \<notin> set c"
  using assms by (fastforce simp: adapter_layers_def)

lemma example_load_report:
  "fst (load_weights example_wrapper ''lora.pt'' (Map.empty(''lora.pt'' \<mapsto> partial_file))) =
     Inr \<lparr>missing_keys = [''blk/to_k/lora_up.weight''],
          unexpected_keys = [''blk/to_v/lora_up.weight'', ''blk/to_k/lora_up.weight.old'']\<rparr>"
  by (simp add: weights_eval_defs host_example_defs local_names_def partial_file_def ones_2_3_def ones_3_3_def
        module_unexpected_def starts_with_def head_name_def AList.update.simps)

text \<open>
  C8. When the adapters have distinct names without a dot (they are the keys of a
  module dictionary, which refuses a dot) and every tensor of the file whose key is
  a key of the adapters has the shape of the parameter, \<open>load_weights\<close> does not
  fail: it returns the keys of the adapters that the file lacks as missing, in the
  order of the parameters, and as unexpected the keys of the file that are no key of
  the adapters, each of them and no other; afterwards every parameter whose key is
  in the file has the values of the file and every other parameter is what it was.
\<close>

theorem load_weights_tolerates_key_mismatch:
  assumes fl: "fs path = Some weights"
      and names: "distinct (map fst (lora_modules (net self)))"
      and dots: "\<forall>n \<in> fst ` set (lora_modules (net self)). CHR ''.'' \<notin> set n"
      and shapes: "\<forall>(k, q) \<in> set (named_parameters (residual_modules (lora_modules (net self)))).
             \<forall>t. map_of weights k = Some t \<longrightarrow> shape (saved_value t) = shape (pvalue q)"
  shows "\<exists>info self'. load_weights self path fs = (Inr info, self')
       \<and> missing_keys info =
           filter (\<lambda>k. k \<notin> fst ` set weights)
             (map fst (named_parameters (residual_modules (lora_modules (net self)))))
       \<and> set (unexpected_keys info) =
           {k \<in> fst ` set weights.
              k \<notin> fst ` set (named_parameters (residual_modules (lora_modules (net self))))}
       \<and> named_parameters (residual_modules (lora_modules (net self'))) =
           map (\<lambda>(k, q). (k, case map_of weights k of None \<Rightarrow> q | Some t \<Rightarrow> q\<lparr>pvalue := saved_value t\<rparr>))
             (named_parameters (residual_modules (lora_modules (net self))))"
proof -
  let ?ms = "lora_modules (net self)"
  let ?L = "residual_modules ?ms"
  let ?P = "named_parameters ?L"
  let ?ms' = "load_loop weights ?P ?ms"
  let ?U = "module_unexpected [] (map fst ?L) [] (map fst weights)
            @ concat (map (\<lambda>(c, l). module_unexpected (c @ ''.'') [] (local_names l) (map fst weights)) ?L)"
  let ?info = "\<lparr>missing_keys = filter (\<lambda>k. k \<notin> fst ` set weights) (map fst ?P), unexpected_keys = ?U\<rparr>"
  have dP: "distinct (map fst ?P)" by (rule distinct_parameters[OF names])
  have L: "?L = concat (map adapter_layers ?ms)" by (rule residual_modules_distinct[OF names])
  have dL: "distinct (map fst ?L)" unfolding L by (rule distinct_adapter_layers[OF names])
  have nL: "\<forall>c \<in> fst ` set ?L. CHR ''.'' \<notin> set c" unfolding L by (rule residual_names_dot[OF dots])
  have nomis: "filter (\<lambda>(k, q). case map_of weights k of None \<Rightarrow> False
                 | Some t \<Rightarrow> shape (saved_value t) \<noteq> shape (pvalue q)) ?P = []"
    using shapes by (auto simp: filter_empty_conv split: option.splits)
  have miss: "filter (\<lambda>k. map_of weights k = None) (map fst ?P) = filter (\<lambda>k. k \<notin> fst ` set weights) (map fst ?P)"
    by (simp add: map_of_eq_None_iff)
  have r: "load_weights self path fs = (Inr ?info, self\<lparr>net := (net self)\<lparr>lora_modules := ?ms'\<rparr>\<rparr>)"
    by (simp add: load_weights_def fl load_state_dict_def Let_def nomis miss)
  have u: "set ?U = {k \<in> fst ` set weights. k \<notin> fst ` set ?P}"
    using unexpected_characterisation[OF dL nL, of "map fst weights"] by simp
  have p: "named_parameters (residual_modules ?ms') =
      map (\<lambda>(k, q). (k, case map_of weights k of None \<Rightarrow> q | Some t \<Rightarrow> q\<lparr>pvalue := saved_value t\<rparr>)) ?P"
    unfolding load_loop_parameters[OF names dP]
  proof (rule map_cong[OF refl])
    fix x assume x: "x \<in> set ?P"
    obtain k q where kq: "x = (k, q)" by (cases x)
    from x dP have m: "map_of ?P k = Some q" by (simp add: kq)
    from shapes x have "shape (saved_value t) = shape (pvalue q)" if "map_of weights k = Some t" for t
      using that by (auto simp: kq)
    then show "(case x of (k', q') \<Rightarrow> (k', case map_of ?P k' of None \<Rightarrow> q'
          | Some q0 \<Rightarrow> (case map_of weights k' of None \<Rightarrow> q'
             | Some t \<Rightarrow> if shape (saved_value t) = shape (pvalue q0) then copy_values (saved_value t) q' else q')))
       = (case x of (k, q) \<Rightarrow> (k, case map_of weights k of None \<Rightarrow> q | Some t \<Rightarrow> q\<lparr>pvalue := saved_value t\<rparr>))"
      by (auto simp: kq m copy_values_def split: option.splits)
  qed
  show ?thesis
    apply (rule exI[of _ ?info])
    apply (rule exI[of _ "self\<lparr>net := (net self)\<lparr>lora_modules := ?ms'\<rparr>\<rparr>"])
    using r u p by simp
qed

theorem load_weights_tolerates_key_mismatch_witness:
  "\<exists>self'. load_weights example_wrapper ''lora.pt'' (Map.empty(''lora.pt'' \<mapsto> partial_file)) =
       (Inr \<lparr>missing_keys = [''blk/to_k/lora_up.weight''],
             unexpected_keys = [''blk/to_v/lora_up.weight'', ''blk/to_k/lora_up.weight.old'']\<rparr>, self')
     \<and> named_parameters (residual_modules (lora_modules (net self'))) =
       [(''blk/to_k/lora_down.weight'',
         \<lparr>pvalue = \<lparr>shape = [2, 3], data = [1, 1, 1, 1, 1, 1]\<rparr>, pdtype = Float32, requires_grad = True\<rparr>),
        (''blk/to_k/lora_up.weight'',
         \<lparr>pvalue = \<lparr>shape = [2, 2], data = [0, 0, 0, 0]\<rparr>, pdtype = Float32, requires_grad = True\<rparr>)]"
proof -
  have f: "(Map.empty(''lora.pt'' \<mapsto> partial_file)) ''lora.pt'' = Some partial_file" by simp
  have n: "distinct (map fst (lora_modules (net example_wrapper)))"
    by (simp add: example_wrapper_def)
  have d: "\<forall>n \<in> fst ` set (lora_modules (net example_wrapper)). CHR ''.'' \<notin> set n"
    by (simp add: host_example_defs)
  have s: "\<forall>(k, q) \<in> set (named_parameters (residual_modules (lora_modules (net example_wrapper)))).
             \<forall>t. map_of partial_file k = Some t \<longrightarrow> shape (saved_value t) = shape (pvalue q)"
    unfolding example_parameters by (simp add: partial_file_def ones_2_3_def)
  from load_weights_tolerates_key_mismatch
         [of "Map.empty(''lora.pt'' \<mapsto> partial_file)" "''lora.pt''" partial_file example_wrapper,
          OF f n d s]
  obtain info self' where
    e: "load_weights example_wrapper ''lora.pt'' (Map.empty(''lora.pt'' \<mapsto> partial_file)) = (Inr info, self')"
    and p: "named_parameters (residual_modules (lora_modules (net self'))) =
           map (\<lambda>(k, q). (k, case map_of partial_file k of None \<Rightarrow> q | Some t \<Rightarrow> q\<lparr>pvalue := saved_value t\<rparr>))
             (named_parameters (residual_modules (lora_modules (net example_wrapper))))"
    by blast
  from e example_load_report have i: "Inr info = (Inr \<lparr>missing_keys = [''blk/to_k/lora_up.weight''],
          unexpected_keys = [''blk/to_v/lora_up.weight'', ''blk/to_k/lora_up.weight.old'']\<rparr> :: error + load_info)"
    by simp
  show ?thesis
    apply (rule exI[of _ self'])
    unfolding e i
    using p unfolding example_parameters
    by (simp add: partial_file_def ones_2_3_def ones_3_3_def)
qed

subsection \<open>Merging\<close>

lemma map_of_map_values:
  "map_of (map (\<lambda>(a, b). (a, g a b)) xs) k = map_option (g k) (map_of xs k)"
  by (induction xs) auto

lemma merge_loop_append:
  "merge_loop (xs @ ys) m ms =
     (case merge_loop xs m ms of
        (Inl e, ms1) \<Rightarrow> (Inl e, ms1)
      | (Inr u, ms1) \<Rightarrow> merge_loop ys m ms1)"
  by (induction xs m ms rule: merge_loop.induct) (auto split: option.splits sum.splits)


lemma merge_loop_succeeds:
  assumes dm: "distinct (map fst ms)" and dw: "distinct (map fst ws)"
      and ok: "\<forall>(k, w) \<in> set ws. \<exists>q merged.
                 map_of (named_parameters (residual_modules ms)) k = Some q
               \<and> tensor_add (pvalue q) (tensor_scale (saved_value w) m) = Inr merged
               \<and> shape merged = shape (pvalue q)"
  shows "\<exists>ms'. merge_loop ws m ms = (Inr (), ms') \<and> map fst ms' = map fst ms
       \<and> named_parameters (residual_modules ms') =
           map (\<lambda>(k, q). (k, case map_of ws k of
                               None \<Rightarrow> q
                             | Some w \<Rightarrow>
                                 (case tensor_add (pvalue q) (tensor_scale (saved_value w) m) of
                                    Inl e \<Rightarrow> q
                                  | Inr merged \<Rightarrow> q\<lparr>pvalue := merged\<rparr>)))
             (named_parameters (residual_modules ms))"
  using assms
proof (induction ws arbitrary: ms)
  case Nil
  then show ?case by (simp add: case_prod_beta)
next
  case (Cons a rest)
  obtain k w where a: "a = (k, w)" by (cases a)
  let ?P = "named_parameters (residual_modules ms)"
  from Cons.prems(3) obtain q merged where
    p: "map_of ?P k = Some q"
    and s: "tensor_add (pvalue q) (tensor_scale (saved_value w) m) = Inr merged"
    and sh: "shape merged = shape (pvalue q)"
    by (auto simp: a)
  let ?ms1 = "update_parameter k (copy_values merged) ms"
  let ?P1 = "named_parameters (residual_modules ?ms1)"
  have P1: "?P1 = map (\<lambda>(k', q'). (k', if k' = k then copy_values merged q' else q')) ?P"
    by (rule lens_parameters[OF Cons.prems(1)])
  have d1: "distinct (map fst ?ms1)" using Cons.prems(1) by simp
  have dr: "distinct (map fst rest)" and kr: "k \<notin> fst ` set rest"
    using Cons.prems(2) by (auto simp: a)
  have other: "map_of ?P1 k' = map_of ?P k'" if "k' \<noteq> k" for k'
    using that unfolding P1 by (simp add: map_of_map_values option.map_ident)
  have ok1: "\<forall>(k', w') \<in> set rest. \<exists>q merged.
                 map_of ?P1 k' = Some q
               \<and> tensor_add (pvalue q) (tensor_scale (saved_value w') m) = Inr merged
               \<and> shape merged = shape (pvalue q)"
  proof (clarify)
    fix k' w' assume in_rest: "(k', w') \<in> set rest"
    with kr have "k' \<noteq> k" by force
    moreover from Cons.prems(3) in_rest obtain q' merged' where
      "map_of ?P k' = Some q'" "tensor_add (pvalue q') (tensor_scale (saved_value w') m) = Inr merged'"
      "shape merged' = shape (pvalue q')" by fastforce
    ultimately show "\<exists>q merged. map_of ?P1 k' = Some q
               \<and> tensor_add (pvalue q) (tensor_scale (saved_value w') m) = Inr merged
               \<and> shape merged = shape (pvalue q)"
      using other by auto
  qed
  from Cons.IH[OF d1 dr ok1] obtain ms' where
    r: "merge_loop rest m ?ms1 = (Inr (), ms')" and n: "map fst ms' = map fst ?ms1"
    and P': "named_parameters (residual_modules ms') =
           map (\<lambda>(k, q). (k, case map_of rest k of
                               None \<Rightarrow> q
                             | Some w \<Rightarrow>
                                 (case tensor_add (pvalue q) (tensor_scale (saved_value w) m) of
                                    Inl e \<Rightarrow> q
                                  | Inr merged \<Rightarrow> q\<lparr>pvalue := merged\<rparr>))) ?P1"
    by blast
  have step: "merge_loop (a # rest) m ms = (Inr (), ms')"
    by (simp add: a p s sh r)
  have dP: "distinct (map fst ?P)" by (rule distinct_parameters[OF Cons.prems(1)])
  have none: "map_of rest k = None" using kr by (simp add: map_of_eq_None_iff)
  have "named_parameters (residual_modules ms') =
           map (\<lambda>(k', q'). (k', case map_of (a # rest) k' of
                               None \<Rightarrow> q'
                             | Some w \<Rightarrow>
                                 (case tensor_add (pvalue q') (tensor_scale (saved_value w) m) of
                                    Inl e \<Rightarrow> q'
                                  | Inr merged \<Rightarrow> q'\<lparr>pvalue := merged\<rparr>))) ?P"
    unfolding P' P1 map_map
  proof (rule map_cong[OF refl])
    fix x assume x: "x \<in> set ?P"
    obtain k' q' where kq: "x = (k', q')" by (cases x)
    have same: "q' = q" if "k' = k"
      using x dP p that by (simp add: kq)
    show "((\<lambda>(k, q). (k, case map_of rest k of
                               None \<Rightarrow> q
                             | Some w \<Rightarrow>
                                 (case tensor_add (pvalue q) (tensor_scale (saved_value w) m) of
                                    Inl e \<Rightarrow> q
                                  | Inr merged \<Rightarrow> q\<lparr>pvalue := merged\<rparr>))) \<circ>
           (\<lambda>(k', q'). (k', if k' = k then copy_values merged q' else q'))) x =
          (case x of (k', q') \<Rightarrow> (k', case map_of (a # rest) k' of
                               None \<Rightarrow> q'
                             | Some w \<Rightarrow>
                                 (case tensor_add (pvalue q') (tensor_scale (saved_value w) m) of
                                    Inl e \<Rightarrow> q'
                                  | Inr merged \<Rightarrow> q'\<lparr>pvalue := merged\<rparr>)))"
      using same by (cases "k' = k") (simp_all add: kq a none s copy_values_def)
  qed
  with step n show ?case by simp
qed

text \<open>
  C7, as claimed: a tensor whose shape does not fit makes \<open>merge_weights\<close> fail and
  leaves every parameter as it was. The keys are merged one after the other, in
  place. In the first file the tensor for the up projection does not fit: the call
  fails, and the down projection, which comes first, has been merged. In the second
  file the tensor has shape \<open>[1, 3]\<close> where the parameter has \<open>[2, 3]\<close>: it is
  broadcast and the call does not fail.
\<close>

theorem partial_merge_counterexample:
  "merge_weights example_wrapper ''lora.pt'' Omitted (Map.empty(''lora.pt'' \<mapsto> mismatched_file))
     = (Inl RuntimeError, merged_wrapper)
   \<and> state_dict example_wrapper =
       [(''blk/to_k/lora_down.weight'',
         \<lparr>saved_value = \<lparr>shape = [2, 3], data = [1, 2, 3, 4, 5, 6]\<rparr>, saved_dtype = Float32\<rparr>),
        (''blk/to_k/lora_up.weight'',
         \<lparr>saved_value = \<lparr>shape = [2, 2], data = [0, 0, 0, 0]\<rparr>, saved_dtype = Float32\<rparr>)]
   \<and> state_dict merged_wrapper =
       [(''blk/to_k/lora_down.weight'',
         \<lparr>saved_value = \<lparr>shape = [2, 3], data = [2, 3, 4, 5, 6, 7]\<rparr>, saved_dtype = Float32\<rparr>),
        (''blk/to_k/lora_up.weight'',
         \<lparr>saved_value = \<lparr>shape = [2, 2], data = [0, 0, 0, 0]\<rparr>, saved_dtype = Float32\<rparr>)]
   \<and> merge_weights example_wrapper ''lora.pt'' Omitted (Map.empty(''lora.pt'' \<mapsto> broadcast_file))
     = (Inr (), merged_wrapper)"
  apply (intro conjI)
  subgoal by (simp add: weights_eval_defs weights_example_defs host_example_defs tensor_eval_defs)
  subgoal by (simp add: weights_eval_defs weights_example_defs host_example_defs tensor_eval_defs)
  subgoal by (simp add: weights_eval_defs weights_example_defs host_example_defs tensor_eval_defs)
  subgoal by (simp add: weights_eval_defs weights_example_defs host_example_defs tensor_eval_defs eval_nat_numeral)
  done

text \<open>
  C7, amended: \<open>merge_weights\<close> merges the keys of the file one after the other, in
  place. The merge of a key fails when the key is not a parameter of the adapters
  (KeyError), when the tensor cannot be broadcast with the parameter, or when their
  broadcast sum has not the shape of the parameter (RuntimeError). When every key of
  the file before some key merges and that key fails, the keys of the file and the
  names of the adapters being distinct as those of dictionaries are, the call fails
  with the error of that key and it is not all or nothing: the parameters are the
  same keys in the same order, every parameter whose key comes before the failing
  one holds \<open>param + weight * multiplier\<close>, and every other parameter, that of the
  failing key included, is what it was.
\<close>

theorem merge_weights_stops_at_first_failure:
  assumes fl: "fs path = Some (before @ (k, t) # later)"
      and keys: "distinct (map fst (before @ [(k, t)]))"
      and names: "distinct (map fst (lora_modules (net self)))"
      and ok: "\<forall>(k', w) \<in> set before. \<exists>q merged.
                 map_of (named_parameters (residual_modules (lora_modules (net self)))) k' = Some q
               \<and> tensor_add (pvalue q) (tensor_scale (saved_value w) (arg_or 1 multiplier_arg)) = Inr merged
               \<and> shape merged = shape (pvalue q)"
      and bad: "(map_of (named_parameters (residual_modules (lora_modules (net self)))) k = None
                  \<and> e = KeyError)
              \<or> (\<exists>q. map_of (named_parameters (residual_modules (lora_modules (net self)))) k = Some q
                  \<and> (tensor_add (pvalue q) (tensor_scale (saved_value t) (arg_or 1 multiplier_arg)) = Inl e
                     \<or> (\<exists>merged. tensor_add (pvalue q) (tensor_scale (saved_value t) (arg_or 1 multiplier_arg))
                                    = Inr merged
                          \<and> shape merged \<noteq> shape (pvalue q) \<and> e = RuntimeError)))"
  shows "\<exists>ms'. merge_weights self path multiplier_arg fs =
                 (Inl e, self\<lparr>net := (net self)\<lparr>lora_modules := ms'\<rparr>\<rparr>)
       \<and> map fst (named_parameters (residual_modules ms')) =
           map fst (named_parameters (residual_modules (lora_modules (net self))))
       \<and> (\<forall>k' w q merged.
             (k', w) \<in> set before
           \<and> map_of (named_parameters (residual_modules (lora_modules (net self)))) k' = Some q
           \<and> tensor_add (pvalue q) (tensor_scale (saved_value w) (arg_or 1 multiplier_arg)) = Inr merged
           \<longrightarrow> map_of (named_parameters (residual_modules ms')) k' = Some (q\<lparr>pvalue := merged\<rparr>))
       \<and> (\<forall>k'. k' \<notin> fst ` set before
           \<longrightarrow> map_of (named_parameters (residual_modules ms')) k' =
               map_of (named_parameters (residual_modules (lora_modules (net self)))) k')"
proof -
  let ?m = "arg_or 1 multiplier_arg"
  let ?ms = "lora_modules (net self)"
  let ?P = "named_parameters (residual_modules ?ms)"
  let ?g = "\<lambda>k (q :: parameter). case map_of before k of
                               None \<Rightarrow> q
                             | Some w \<Rightarrow>
                                 (case tensor_add (pvalue q) (tensor_scale (saved_value w) ?m) of
                                    Inl e \<Rightarrow> q
                                  | Inr merged \<Rightarrow> q\<lparr>pvalue := merged\<rparr>)"
  have db: "distinct (map fst before)" and kb: "k \<notin> fst ` set before" using keys by auto
  from merge_loop_succeeds[OF names db ok] obtain ms1 where
    m1: "merge_loop before ?m ?ms = (Inr (), ms1)"
    and P1: "named_parameters (residual_modules ms1) = map (\<lambda>(k, q). (k, ?g k q)) ?P"
    by blast
  have lk: "map_of (named_parameters (residual_modules ms1)) k' = map_option (?g k') (map_of ?P k')" for k'
    unfolding P1 by (rule map_of_map_values)
  have nb: "map_of before k = None" using kb by (simp add: map_of_eq_None_iff)
  have "map_of (named_parameters (residual_modules ms1)) k = map_of ?P k"
    unfolding lk by (cases "map_of ?P k") (simp_all add: nb)
  with bad have "merge_loop ((k, t) # later) ?m ms1 = (Inl e, ms1)"
    by auto
  with m1 have "merge_loop (before @ (k, t) # later) ?m ?ms = (Inl e, ms1)"
    by (simp add: merge_loop_append)
  then have r: "merge_weights self path multiplier_arg fs =
                 (Inl e, self\<lparr>net := (net self)\<lparr>lora_modules := ms1\<rparr>\<rparr>)"
    by (simp add: merge_weights_def fl)
  have f: "map fst (named_parameters (residual_modules ms1)) = map fst ?P"
    unfolding P1 by (simp add: comp_def case_prod_beta)
  have a: "map_of (named_parameters (residual_modules ms1)) k' = Some (q\<lparr>pvalue := merged\<rparr>)"
    if "(k', w) \<in> set before" "map_of ?P k' = Some q"
       "tensor_add (pvalue q) (tensor_scale (saved_value w) ?m) = Inr merged" for k' w q merged
  proof -
    from that(1) db have "map_of before k' = Some w" by simp
    with that(2,3) show ?thesis unfolding lk by simp
  qed
  have b: "map_of (named_parameters (residual_modules ms1)) k' = map_of ?P k'"
    if "k' \<notin> fst ` set before" for k'
  proof -
    from that have "map_of before k' = None" by (simp add: map_of_eq_None_iff)
    then show ?thesis unfolding lk by (cases "map_of ?P k'") simp_all
  qed
  show ?thesis
    apply (rule exI[of _ ms1])
    using r f a b by blast
qed

theorem merge_weights_stops_at_first_failure_witness:
  "\<exists>ms'. merge_weights example_wrapper ''lora.pt'' Omitted (Map.empty(''lora.pt'' \<mapsto> mismatched_file))
            = (Inl RuntimeError, example_wrapper\<lparr>net := (net example_wrapper)\<lparr>lora_modules := ms'\<rparr>\<rparr>)
     \<and> map_of (named_parameters (residual_modules ms')) ''blk/to_k/lora_down.weight'' =
         Some \<lparr>pvalue = \<lparr>shape = [2, 3], data = [2, 3, 4, 5, 6, 7]\<rparr>, pdtype = Float32,
               requires_grad = True\<rparr>
     \<and> map_of (named_parameters (residual_modules ms')) ''blk/to_k/lora_up.weight'' =
         Some \<lparr>pvalue = \<lparr>shape = [2, 2], data = [0, 0, 0, 0]\<rparr>, pdtype = Float32,
               requires_grad = True\<rparr>"
proof -
  let ?down = "\<lparr>pvalue = \<lparr>shape = [2, 3], data = [1, 2, 3, 4, 5, 6]\<rparr>, pdtype = Float32,
               requires_grad = True\<rparr>"
  let ?P = "named_parameters (residual_modules (lora_modules (net example_wrapper)))"
  have f: "(Map.empty(''lora.pt'' \<mapsto> mismatched_file)) ''lora.pt'' =
      Some ([(''blk/to_k/lora_down.weight'', ones_2_3)] @ (''blk/to_k/lora_up.weight'', ones_3_3) # [])"
    by (simp add: mismatched_file_def)
  have d: "distinct (map fst ([(''blk/to_k/lora_down.weight'', ones_2_3)]
                              @ [(''blk/to_k/lora_up.weight'', ones_3_3)]))"
    by simp
  have n: "distinct (map fst (lora_modules (net example_wrapper)))"
    by (simp add: example_wrapper_def)
  have sum: "tensor_add \<lparr>shape = [2, 3], data = [1, 2, 3, 4, 5, 6]\<rparr>
               (tensor_scale (saved_value ones_2_3) 1)
             = Inr \<lparr>shape = [2, 3], data = [2, 3, 4, 5, 6, 7]\<rparr>"
    by (simp add: ones_2_3_def tensor_eval_defs)
  have ok: "\<forall>(k', w) \<in> set [(''blk/to_k/lora_down.weight'', ones_2_3)]. \<exists>q merged.
                 map_of ?P k' = Some q
               \<and> tensor_add (pvalue q) (tensor_scale (saved_value w) (arg_or 1 Omitted)) = Inr merged
               \<and> shape merged = shape (pvalue q)"
    unfolding example_parameters by (simp add: sum)
  have bad: "(map_of ?P ''blk/to_k/lora_up.weight'' = None \<and> RuntimeError = KeyError)
              \<or> (\<exists>q. map_of ?P ''blk/to_k/lora_up.weight'' = Some q
                  \<and> (tensor_add (pvalue q) (tensor_scale (saved_value ones_3_3) (arg_or 1 Omitted))
                       = Inl RuntimeError
                     \<or> (\<exists>merged. tensor_add (pvalue q) (tensor_scale (saved_value ones_3_3) (arg_or 1 Omitted))
                                    = Inr merged
                          \<and> shape merged \<noteq> shape (pvalue q) \<and> RuntimeError = RuntimeError)))"
    unfolding example_parameters by (simp add: ones_3_3_def tensor_eval_defs)
  from merge_weights_stops_at_first_failure
         [where fs = "Map.empty(''lora.pt'' \<mapsto> mismatched_file)" and path = "''lora.pt''"
            and before = "[(''blk/to_k/lora_down.weight'', ones_2_3)]"
            and k = "''blk/to_k/lora_up.weight''" and t = ones_3_3 and later = "[]"
            and self = example_wrapper and multiplier_arg = Omitted and e = RuntimeError,
          OF f d n ok bad]
  obtain ms' where
    r: "merge_weights example_wrapper ''lora.pt'' Omitted (Map.empty(''lora.pt'' \<mapsto> mismatched_file))
            = (Inl RuntimeError, example_wrapper\<lparr>net := (net example_wrapper)\<lparr>lora_modules := ms'\<rparr>\<rparr>)"
    and a: "\<And>k' w q merged. (k', w) \<in> set [(''blk/to_k/lora_down.weight'', ones_2_3)]
           \<Longrightarrow> map_of ?P k' = Some q
           \<Longrightarrow> tensor_add (pvalue q) (tensor_scale (saved_value w) (arg_or 1 Omitted)) = Inr merged
           \<Longrightarrow> map_of (named_parameters (residual_modules ms')) k' = Some (q\<lparr>pvalue := merged\<rparr>)"
    and b: "\<And>k'. k' \<notin> fst ` set [(''blk/to_k/lora_down.weight'', ones_2_3)]
           \<Longrightarrow> map_of (named_parameters (residual_modules ms')) k' = map_of ?P k'"
    by blast
  have "map_of (named_parameters (residual_modules ms')) ''blk/to_k/lora_down.weight'' =
         Some (?down\<lparr>pvalue := \<lparr>shape = [2, 3], data = [2, 3, 4, 5, 6, 7]\<rparr>\<rparr>)"
    by (rule a[of _ ones_2_3]) (simp_all add: example_parameters sum)
  moreover have "map_of (named_parameters (residual_modules ms')) ''blk/to_k/lora_up.weight'' =
      map_of ?P ''blk/to_k/lora_up.weight''"
    by (rule b) simp
  ultimately show ?thesis using r unfolding example_parameters by auto
qed

end
